theory Spec2Isabelle
  imports Main "HOL-Library.Word"
begin

unbundle bit_operations_syntax

section \<open>Session establishment (sessionbuilder.cpp)\<close>

text \<open>
  A shallow embedding of \<^verbatim>\<open>SessionBuilder\<close>. The builder is written against four
  store interfaces, the session record, the three message classes, the curve primitives
  and the ratchet initialiser. Their sources are not covered here, so they are either
  parameters of the model (record \<open>primitives\<close>) or small models written from the
  specification, each marked as such. Every method of
  \<^verbatim>\<open>sessionbuilder.cpp\<close> is translated statement by statement. An exception is the
  left summand of the result; the stores live in a record \<open>world\<close> that is passed
  through, and every store call is appended to the log \<open>calls\<close> in program order, so that
  "before any other store access" is a statement about that log.
\<close>

subsection \<open>Values\<close>

type_synonym bytes = "8 word list"

text \<open>\<^verbatim>\<open>ulong\<close>, the type of the pre-key ids the builder returns (64 bits on LP64).\<close>

type_synonym ulong = "64 word"

datatype ec_public_key = DjbECPublicKey (serialize: bytes)

datatype ec_key_pair = ECKeyPair (kp_getPublicKey: ec_public_key) (kp_getPrivateKey: bytes)

datatype identity_key = IdentityKey (ik_getPublicKey: ec_public_key)

datatype identity_key_pair =
  IdentityKeyPair (ikp_getPublicKey: identity_key) (ikp_getPrivateKey: bytes)

datatype axolotl_address = AxolotlAddress (getName: string) (getDeviceId: int)

text \<open>
  The exception classes, each a \<^verbatim>\<open>WhisperException\<close> carrying its text
  (\<^verbatim>\<open>invalidkeyexception.h\<close>, \<^verbatim>\<open>untrustedidentityexception.h\<close>, ...).
\<close>

datatype whisper_exception =
    UntrustedIdentityException string
  | InvalidKeyIdException string
  | InvalidKeyException string
  | InvalidMessageException string
  | StaleKeyExchangeException string
  | NoSessionException string
  | DuplicateMessageException string

subsection \<open>Messages\<close>

text \<open>
  Modelled from the spec: the class \<^verbatim>\<open>PreKeyWhisperMessage\<close> is not in the source
  files; section 3 gives its fields. The pre-key ids are unsigned (section 3: "IDs are
  unsigned integers"), and the builder returns them as \<^verbatim>\<open>ulong\<close>.
\<close>

record pre_key_whisper_message =
  pkwm_getMessageVersion :: int
  pkwm_getRegistrationId :: ulong
  pkwm_getPreKeyId :: ulong
  pkwm_getSignedPreKeyId :: ulong
  pkwm_getBaseKey :: ec_public_key
  pkwm_getIdentityKey :: identity_key

text \<open>
  Modelled from the spec: the class \<^verbatim>\<open>PreKeyBundle\<close> is not in the source files;
  section 3 gives its fields. A key that is not present serialises to the empty byte
  array, which is what the builder tests.
\<close>

record pre_key_bundle =
  pkb_getRegistrationId :: ulong
  pkb_getDeviceId :: int
  pkb_getPreKeyId :: ulong
  pkb_getPreKey :: ec_public_key
  pkb_getSignedPreKeyId :: ulong
  pkb_getSignedPreKey :: ec_public_key
  pkb_getSignedPreKeySignature :: bytes
  pkb_getIdentityKey :: identity_key

text \<open>
  Modelled from the spec: the class \<^verbatim>\<open>KeyExchangeMessage\<close> is not in the source
  files; section 3 gives its fields and section 6 the flag bits.
\<close>

record key_exchange_message =
  kem_getVersion :: int
  kem_getMaxVersion :: int
  kem_getSequence :: int
  kem_getFlags :: int
  kem_getBaseKey :: ec_public_key
  kem_getBaseKeySignature :: bytes
  kem_getRatchetKey :: ec_public_key
  kem_getIdentityKey :: identity_key

text \<open>
  Modelled from the spec: the flag bits of \<^verbatim>\<open>KeyExchangeMessage\<close> (section 6) and the
  two tests on them, which are not in the source files.
\<close>

definition INITIATE_FLAG :: int where
  "INITIATE_FLAG = 1"

definition RESPONSE_FLAG :: int where
  "RESPONSE_FLAG = 2"

definition SIMULTAENOUS_INITIATE_FLAG :: int where
  "SIMULTAENOUS_INITIATE_FLAG = 4"

text \<open>Modelled from the spec: \<^verbatim>\<open>CiphertextMessage::CURRENT_VERSION\<close> (section 6).\<close>

definition CURRENT_VERSION :: int where
  "CURRENT_VERSION = 3"

definition isInitiate :: "key_exchange_message \<Rightarrow> bool" where
  "isInitiate m = (kem_getFlags m AND INITIATE_FLAG \<noteq> 0)"

definition isResponseForSimultaneousInitiate :: "key_exchange_message \<Rightarrow> bool" where
  "isResponseForSimultaneousInitiate m = (kem_getFlags m AND SIMULTAENOUS_INITIATE_FLAG \<noteq> 0)"

text \<open>
  Modelled from the spec: the seven-argument constructor of \<^verbatim>\<open>KeyExchangeMessage\<close>
  is not in the source files. It stores its arguments; the maximum version it advertises
  is the current one (section 4.2.3: the peer upgrades through the maximum version).
\<close>

definition KeyExchangeMessage ::
  "int \<Rightarrow> int \<Rightarrow> int \<Rightarrow> ec_public_key \<Rightarrow> bytes \<Rightarrow> ec_public_key \<Rightarrow> identity_key
     \<Rightarrow> key_exchange_message" where
  "KeyExchangeMessage messageVersion sequence flags baseKey baseKeySignature ratchetKey identityKey =
     \<lparr>kem_getVersion = messageVersion, kem_getMaxVersion = CURRENT_VERSION,
      kem_getSequence = sequence, kem_getFlags = flags, kem_getBaseKey = baseKey,
      kem_getBaseKeySignature = baseKeySignature, kem_getRatchetKey = ratchetKey,
      kem_getIdentityKey = identityKey\<rparr>"

subsection \<open>Session state and session record\<close>

record pending_key_exchange =
  pke_sequence :: int
  pke_baseKey :: ec_key_pair
  pke_ratchetKey :: ec_key_pair
  pke_identityKey :: identity_key_pair

record unacknowledged_pre_key_message =
  upk_preKeyId :: int
  upk_signedPreKeyId :: ulong
  upk_baseKey :: ec_public_key

text \<open>
  Modelled from the spec: the class \<^verbatim>\<open>SessionState\<close> is not in the source files;
  section 3 lists the fields the builder reads and writes. The ratchet keys belong to the
  ratchet module and stay opaque.
\<close>

record session_state =
  sessionVersion :: int
  localRegistrationId :: ulong
  remoteRegistrationId :: ulong
  aliceBaseKey :: bytes
  unacknowledgedPreKeyMessage :: "unacknowledged_pre_key_message option"
  pendingKeyExchange :: "pending_key_exchange option"
  ratchetKeys :: bytes

text \<open>
  Modelled from the spec: the blank state that a new record and an archived record start
  from, and the test for a pending key exchange (section 3).
\<close>

definition blankSessionState :: session_state where
  "blankSessionState =
     \<lparr>sessionVersion = 0, localRegistrationId = 0, remoteRegistrationId = 0,
      aliceBaseKey = [], unacknowledgedPreKeyMessage = None, pendingKeyExchange = None,
      ratchetKeys = []\<rparr>"

definition hasPendingKeyExchange :: "session_state \<Rightarrow> bool" where
  "hasPendingKeyExchange s = (pendingKeyExchange s \<noteq> None)"

text \<open>
  Modelled from the spec: the getters and setters of \<^verbatim>\<open>SessionState\<close> that the
  builder calls (section 3). The builder reads the sequence of the pending exchange only
  after \<open>hasPendingKeyExchange\<close> has answered true (the \<^verbatim>\<open>||\<close> of line 283 is
  short-circuit); the values the getters give without a pending exchange are defaults of
  the model.
\<close>

definition getPendingKeyExchangeSequence :: "session_state \<Rightarrow> int" where
  "getPendingKeyExchangeSequence s =
     (case pendingKeyExchange s of None \<Rightarrow> 0 | Some p \<Rightarrow> pke_sequence p)"

definition getPendingKeyExchangeBaseKey :: "session_state \<Rightarrow> ec_key_pair" where
  "getPendingKeyExchangeBaseKey s =
     (case pendingKeyExchange s of None \<Rightarrow> ECKeyPair (DjbECPublicKey []) []
      | Some p \<Rightarrow> pke_baseKey p)"

definition getPendingKeyExchangeRatchetKey :: "session_state \<Rightarrow> ec_key_pair" where
  "getPendingKeyExchangeRatchetKey s =
     (case pendingKeyExchange s of None \<Rightarrow> ECKeyPair (DjbECPublicKey []) []
      | Some p \<Rightarrow> pke_ratchetKey p)"

definition getPendingKeyExchangeIdentityKey :: "session_state \<Rightarrow> identity_key_pair" where
  "getPendingKeyExchangeIdentityKey s =
     (case pendingKeyExchange s of
        None \<Rightarrow> IdentityKeyPair (IdentityKey (DjbECPublicKey [])) []
      | Some p \<Rightarrow> pke_identityKey p)"

definition setPendingKeyExchange ::
  "int \<Rightarrow> ec_key_pair \<Rightarrow> ec_key_pair \<Rightarrow> identity_key_pair \<Rightarrow> session_state \<Rightarrow> session_state" where
  "setPendingKeyExchange sequence baseKey ratchetKey identityKey s =
     s\<lparr>pendingKeyExchange :=
         Some \<lparr>pke_sequence = sequence, pke_baseKey = baseKey, pke_ratchetKey = ratchetKey,
               pke_identityKey = identityKey\<rparr>\<rparr>"

definition setUnacknowledgedPreKeyMessage ::
  "int \<Rightarrow> ulong \<Rightarrow> ec_public_key \<Rightarrow> session_state \<Rightarrow> session_state" where
  "setUnacknowledgedPreKeyMessage preKeyId signedPreKeyId baseKey s =
     s\<lparr>unacknowledgedPreKeyMessage :=
         Some \<lparr>upk_preKeyId = preKeyId, upk_signedPreKeyId = signedPreKeyId,
               upk_baseKey = baseKey\<rparr>\<rparr>"

text \<open>
  Modelled from the spec: the class \<^verbatim>\<open>SessionRecord\<close> is not in the source files.
  Sections 3 and 4.3: the current state, the archive of superseded states (at most 40,
  the oldest evicted) and the fresh flag, which is true until the first archiving or the
  first change of the current state.
\<close>

record session_record =
  sessionState :: session_state
  previousStates :: "session_state list"
  fresh :: bool

text \<open>
  Modelled from the spec: the operations of \<^verbatim>\<open>SessionRecord\<close> (section 4.3).
\<close>

definition newSessionRecord :: session_record where
  "newSessionRecord = \<lparr>sessionState = blankSessionState, previousStates = [], fresh = True\<rparr>"

definition isFresh :: "session_record \<Rightarrow> bool" where
  "isFresh r = fresh r"

definition archiveCurrentState :: "session_record \<Rightarrow> session_record" where
  "archiveCurrentState r =
     \<lparr>sessionState = blankSessionState,
      previousStates = take 40 (sessionState r # previousStates r),
      fresh = False\<rparr>"

definition hasSessionState :: "session_record \<Rightarrow> int \<Rightarrow> bytes \<Rightarrow> bool" where
  "hasSessionState r version aliceBaseKey' =
     list_ex (\<lambda>s. sessionVersion s = version \<and> aliceBaseKey s = aliceBaseKey')
       (sessionState r # previousStates r)"

text \<open>
  Modelled from the spec: a write through \<^verbatim>\<open>sessionRecord->getSessionState()\<close>. The
  current state is changed in place, and the record is no longer fresh (section 4.3).
\<close>

definition onSessionState :: "(session_state \<Rightarrow> session_state) \<Rightarrow> session_record \<Rightarrow> session_record" where
  "onSessionState f r = r\<lparr>sessionState := f (sessionState r), fresh := False\<rparr>"

subsection \<open>Ratchet parameters and the external primitives\<close>

record bob_axolotl_parameters =
  bob_ourIdentityKey :: identity_key_pair
  bob_ourSignedPreKey :: ec_key_pair
  bob_ourRatchetKey :: ec_key_pair
  bob_ourOneTimePreKey :: "ec_key_pair option"
  bob_theirIdentityKey :: identity_key
  bob_theirBaseKey :: ec_public_key

record alice_axolotl_parameters =
  alice_ourBaseKey :: ec_key_pair
  alice_ourIdentityKey :: identity_key_pair
  alice_theirIdentityKey :: identity_key
  alice_theirSignedPreKey :: ec_public_key
  alice_theirRatchetKey :: ec_public_key
  alice_theirOneTimePreKey :: "ec_public_key option"

record symmetric_axolotl_parameters =
  sym_ourIdentityKey :: identity_key_pair
  sym_ourBaseKey :: ec_key_pair
  sym_ourRatchetKey :: ec_key_pair
  sym_theirBaseKey :: ec_public_key
  sym_theirRatchetKey :: ec_public_key
  sym_theirIdentityKey :: identity_key

datatype axolotl_parameters =
    Alice alice_axolotl_parameters
  | Bob bob_axolotl_parameters
  | Symmetric symmetric_axolotl_parameters

text \<open>
  What the builder calls and the repository files at hand do not define, taken as
  parameters: \<^verbatim>\<open>Curve::verifySignature(signingKey, message, signature)\<close>,
  \<^verbatim>\<open>Curve::calculateSignature(privateKey, message)\<close>,
  \<^verbatim>\<open>RatchetingSession::initializeSession(state, version, parameters)\<close> and the constant
  \<^verbatim>\<open>Medium::MAX_VALUE\<close>.
\<close>

record primitives =
  verifySignature :: "ec_public_key \<Rightarrow> bytes \<Rightarrow> bytes \<Rightarrow> bool"
  calculateSignature :: "bytes \<Rightarrow> bytes \<Rightarrow> bytes"
  initializeSession :: "session_state \<Rightarrow> int \<Rightarrow> axolotl_parameters \<Rightarrow> session_state"
  MAX_VALUE :: ulong

subsection \<open>The stores\<close>

datatype store_call =
    IsTrustedIdentity string identity_key
  | SaveIdentity string identity_key
  | GetIdentityKeyPair
  | GetLocalRegistrationId
  | LoadSession axolotl_address
  | ContainsSession axolotl_address
  | StoreSession axolotl_address session_record
  | LoadPreKey ulong
  | ContainsPreKey ulong
  | LoadSignedPreKey ulong

text \<open>
  The four stores, the log of the calls made to them, and the source of randomness behind
  \<^verbatim>\<open>Curve::generateKeyPair\<close> and \<^verbatim>\<open>KeyHelper::getRandomFFFF\<close>: the \<open>n\<close>-th draw
  is \<open>keyPairs n\<close>, respectively \<open>sequences n\<close>.
\<close>

record world =
  sessions :: "axolotl_address \<rightharpoonup> session_record"
  preKeys :: "ulong \<rightharpoonup> ec_key_pair"
  signedPreKeys :: "ulong \<rightharpoonup> ec_key_pair"
  identities :: "string \<rightharpoonup> identity_key"
  ourIdentityKeyPair :: identity_key_pair
  ourRegistrationId :: ulong
  calls :: "store_call list"
  keyPairs :: "nat \<Rightarrow> ec_key_pair"
  sequences :: "nat \<Rightarrow> int"
  drawn :: nat

definition logged :: "store_call \<Rightarrow> world \<Rightarrow> world" where
  "logged c w = w\<lparr>calls := calls w @ [c]\<rparr>"

text \<open>
  Modelled from the spec: the store classes are not in the source files. Section 4.1:
  \<open>isTrustedIdentity\<close> is true if the name is unknown or the key matches the pin;
  \<open>loadSession\<close> returns a fresh blank record if there is none; \<open>loadPreKey\<close> and
  \<open>loadSignedPreKey\<close> fail with \<open>InvalidKeyId\<close> if the id is absent (the text of that
  exception is not specified and is empty here). A loaded session record is a copy: writing
  to it does not change the store before \<open>storeSession\<close>.
\<close>

definition isTrustedIdentity :: "world \<Rightarrow> string \<Rightarrow> identity_key \<Rightarrow> bool \<times> world" where
  "isTrustedIdentity w name' key =
     ((case identities w name' of None \<Rightarrow> True | Some pinned \<Rightarrow> pinned = key),
      logged (IsTrustedIdentity name' key) w)"

definition saveIdentity :: "world \<Rightarrow> string \<Rightarrow> identity_key \<Rightarrow> world" where
  "saveIdentity w name' key =
     logged (SaveIdentity name' key) (w\<lparr>identities := (identities w)(name' \<mapsto> key)\<rparr>)"

definition getIdentityKeyPair :: "world \<Rightarrow> identity_key_pair \<times> world" where
  "getIdentityKeyPair w = (ourIdentityKeyPair w, logged GetIdentityKeyPair w)"

definition getLocalRegistrationId :: "world \<Rightarrow> ulong \<times> world" where
  "getLocalRegistrationId w = (ourRegistrationId w, logged GetLocalRegistrationId w)"

definition loadSession :: "world \<Rightarrow> axolotl_address \<Rightarrow> session_record \<times> world" where
  "loadSession w a =
     ((case sessions w a of None \<Rightarrow> newSessionRecord | Some r \<Rightarrow> r), logged (LoadSession a) w)"

definition containsSession :: "world \<Rightarrow> axolotl_address \<Rightarrow> bool \<times> world" where
  "containsSession w a = (sessions w a \<noteq> None, logged (ContainsSession a) w)"

definition storeSession :: "world \<Rightarrow> axolotl_address \<Rightarrow> session_record \<Rightarrow> world" where
  "storeSession w a r = logged (StoreSession a r) (w\<lparr>sessions := (sessions w)(a \<mapsto> r)\<rparr>)"

definition containsPreKey :: "world \<Rightarrow> ulong \<Rightarrow> bool \<times> world" where
  "containsPreKey w i = (preKeys w i \<noteq> None, logged (ContainsPreKey i) w)"

definition loadPreKey :: "world \<Rightarrow> ulong \<Rightarrow> (whisper_exception + ec_key_pair) \<times> world" where
  "loadPreKey w i =
     ((case preKeys w i of None \<Rightarrow> Inl (InvalidKeyIdException []) | Some k \<Rightarrow> Inr k),
      logged (LoadPreKey i) w)"

definition loadSignedPreKey :: "world \<Rightarrow> ulong \<Rightarrow> (whisper_exception + ec_key_pair) \<times> world" where
  "loadSignedPreKey w i =
     ((case signedPreKeys w i of None \<Rightarrow> Inl (InvalidKeyIdException []) | Some k \<Rightarrow> Inr k),
      logged (LoadSignedPreKey i) w)"

text \<open>\<^verbatim>\<open>Curve::generateKeyPair()\<close> and \<^verbatim>\<open>KeyHelper::getRandomFFFF()\<close>: the next draw.\<close>

definition generateKeyPair :: "world \<Rightarrow> ec_key_pair \<times> world" where
  "generateKeyPair w = (keyPairs w (drawn w), w\<lparr>drawn := Suc (drawn w)\<rparr>)"

definition getRandomFFFF :: "world \<Rightarrow> int \<times> world" where
  "getRandomFFFF w = (sequences w (drawn w), w\<lparr>drawn := Suc (drawn w)\<rparr>)"

subsection \<open>The builder\<close>

text \<open>
  Lines 89 to 101 of \<^verbatim>\<open>processV3\<close>, which lines 127 to 139 of \<^verbatim>\<open>processV2\<close>
  repeat word for word: archive the current state unless the record is fresh, initialise
  the session, set the registration ids and Alice's base key, and return the pre-key id
  unless it is \<^verbatim>\<open>Medium::MAX_VALUE\<close>, else \<^verbatim>\<open>-1\<close> (as \<^verbatim>\<open>ulong\<close>).
\<close>

definition installBobSession ::
  "primitives \<Rightarrow> world \<Rightarrow> session_record \<Rightarrow> pre_key_whisper_message \<Rightarrow> bob_axolotl_parameters
     \<Rightarrow> (whisper_exception + ulong) \<times> world \<times> session_record" where
  "installBobSession P w sessionRecord message parameters =
     (let r1 = (if \<not> isFresh sessionRecord then archiveCurrentState sessionRecord
                else sessionRecord);
          r2 = onSessionState
                 (\<lambda>s. initializeSession P s (pkwm_getMessageVersion message) (Bob parameters)) r1
      in case getLocalRegistrationId w of
           (localId, w1) \<Rightarrow>
             let r3 = onSessionState (\<lambda>s. s\<lparr>localRegistrationId := localId\<rparr>) r2;
                 r4 = onSessionState
                        (\<lambda>s. s\<lparr>remoteRegistrationId := pkwm_getRegistrationId message\<rparr>) r3;
                 r5 = onSessionState
                        (\<lambda>s. s\<lparr>aliceBaseKey := serialize (pkwm_getBaseKey message)\<rparr>) r4
             in (if pkwm_getPreKeyId message \<noteq> MAX_VALUE P
                 then (Inr (pkwm_getPreKeyId message), w1, r5)
                 else (Inr (- 1), w1, r5)))"

text \<open>
  \<^verbatim>\<open>processV3\<close>. The comparison of line 83 is kept as written; on the unsigned id it is
  always true.
\<close>

definition processV3 ::
  "primitives \<Rightarrow> axolotl_address \<Rightarrow> world \<Rightarrow> session_record \<Rightarrow> pre_key_whisper_message
     \<Rightarrow> (whisper_exception + ulong) \<times> world \<times> session_record" where
  "processV3 P remoteAddress w sessionRecord message =
     (if hasSessionState sessionRecord (pkwm_getMessageVersion message)
           (serialize (pkwm_getBaseKey message))
      then (Inr (- 1), w, sessionRecord)
      else
        case loadSignedPreKey w (pkwm_getSignedPreKeyId message) of
          (Inl e, w1) \<Rightarrow> (Inl e, w1, sessionRecord)
        | (Inr ourSignedPreKey, w1) \<Rightarrow>
            (case getIdentityKeyPair w1 of
               (ourIdentityKey, w2) \<Rightarrow>
                 let parameters =
                       \<lparr>bob_ourIdentityKey = ourIdentityKey,
                        bob_ourSignedPreKey = ourSignedPreKey,
                        bob_ourRatchetKey = ourSignedPreKey,
                        bob_ourOneTimePreKey = None,
                        bob_theirIdentityKey = pkwm_getIdentityKey message,
                        bob_theirBaseKey = pkwm_getBaseKey message\<rparr>
                 in if pkwm_getPreKeyId message \<ge> 0
                    then (case loadPreKey w2 (pkwm_getPreKeyId message) of
                            (Inl e, w3) \<Rightarrow> (Inl e, w3, sessionRecord)
                          | (Inr ourOneTimePreKey, w3) \<Rightarrow>
                              installBobSession P w3 sessionRecord message
                                (parameters\<lparr>bob_ourOneTimePreKey := Some ourOneTimePreKey\<rparr>))
                    else installBobSession P w2 sessionRecord message parameters))"

text \<open>
  \<^verbatim>\<open>processV2\<close>. The comparison of line 106 is kept as written; on the unsigned id it
  is never true. The session store is asked only when the pre-key is not in its store
  (the \<^verbatim>\<open>&&\<close> of lines 110 and 111 is short-circuit).
\<close>

definition processV2 ::
  "primitives \<Rightarrow> axolotl_address \<Rightarrow> world \<Rightarrow> session_record \<Rightarrow> pre_key_whisper_message
     \<Rightarrow> (whisper_exception + ulong) \<times> world \<times> session_record" where
  "processV2 P remoteAddress w sessionRecord message =
     (if pkwm_getPreKeyId message < 0
      then (Inl (InvalidKeyIdException ''V2 message requires one time prekey id!''),
            w, sessionRecord)
      else
        case containsPreKey w (pkwm_getPreKeyId message) of
          (hasPreKey, w1) \<Rightarrow>
            (case (if \<not> hasPreKey then containsSession w1 remoteAddress else (False, w1)) of
               (hasSession, w2) \<Rightarrow>
                 if \<not> hasPreKey \<and> hasSession
                 then (Inr (- 1), w2, sessionRecord)
                 else
                   (case loadPreKey w2 (pkwm_getPreKeyId message) of
                      (Inl e, w3) \<Rightarrow> (Inl e, w3, sessionRecord)
                    | (Inr ourPreKey, w3) \<Rightarrow>
                        (case getIdentityKeyPair w3 of
                           (ourIdentityKey, w4) \<Rightarrow>
                             installBobSession P w4 sessionRecord message
                               \<lparr>bob_ourIdentityKey = ourIdentityKey,
                                bob_ourSignedPreKey = ourPreKey,
                                bob_ourRatchetKey = ourPreKey,
                                bob_ourOneTimePreKey = None,
                                bob_theirIdentityKey = pkwm_getIdentityKey message,
                                bob_theirBaseKey = pkwm_getBaseKey message\<rparr>))))"

text \<open>
  \<^verbatim>\<open>process(SessionRecord*, QSharedPointer<PreKeyWhisperMessage>)\<close>. The record is
  changed through the pointer, so the model returns it. The text of the
  \<^verbatim>\<open>InvalidMessageException\<close> is the C string \<^verbatim>\<open>"Unknown version: "\<close> advanced by
  \<open>messageVersion\<close> characters (the source adds an \<^verbatim>\<open>int\<close> to a string literal).
  For a version below 0 or above 17 the source reads outside the literal and its text is
  undefined; only the kind of the exception is meant there.
\<close>

definition process_PreKeyWhisperMessage ::
  "primitives \<Rightarrow> axolotl_address \<Rightarrow> world \<Rightarrow> session_record \<Rightarrow> pre_key_whisper_message
     \<Rightarrow> (whisper_exception + ulong) \<times> world \<times> session_record" where
  "process_PreKeyWhisperMessage P remoteAddress w sessionRecord message =
     (let messageVersion = pkwm_getMessageVersion message;
          theirIdentityKey = pkwm_getIdentityKey message
      in case isTrustedIdentity w (getName remoteAddress) theirIdentityKey of
           (trusted, w1) \<Rightarrow>
             if \<not> trusted
             then (Inl (UntrustedIdentityException
                          (''Untrusted identity: '' @ getName remoteAddress)),
                   w1, sessionRecord)
             else
               (case (if messageVersion = 2
                      then processV2 P remoteAddress w1 sessionRecord message
                      else if messageVersion = 3
                      then processV3 P remoteAddress w1 sessionRecord message
                      else (Inl (InvalidMessageException
                                   (drop (nat messageVersion) ''Unknown version: '')),
                            w1, sessionRecord)) of
                  (Inl e, w2, r) \<Rightarrow> (Inl e, w2, r)
                | (Inr unsignedPreKeyId, w2, r) \<Rightarrow>
                    (Inr unsignedPreKeyId,
                     saveIdentity w2 (getName remoteAddress) theirIdentityKey, r)))"

text \<open>\<^verbatim>\<open>process(const PreKeyBundle&)\<close>.\<close>

definition process_PreKeyBundle ::
  "primitives \<Rightarrow> axolotl_address \<Rightarrow> world \<Rightarrow> pre_key_bundle
     \<Rightarrow> (whisper_exception + unit) \<times> world" where
  "process_PreKeyBundle P remoteAddress w preKey =
     (case isTrustedIdentity w (getName remoteAddress) (pkb_getIdentityKey preKey) of
        (trusted, w1) \<Rightarrow>
          if \<not> trusted
          then (Inl (UntrustedIdentityException
                       (''Untrusted identity: '' @ getName remoteAddress)), w1)
          else if serialize (pkb_getSignedPreKey preKey) \<noteq> [] \<and>
                  \<not> verifySignature P (pkb_getSignedPreKey preKey)
                      (serialize (ik_getPublicKey (pkb_getIdentityKey preKey)))
                      (pkb_getSignedPreKeySignature preKey)
          then (Inl (InvalidKeyException ''Invalid signature on device key!''), w1)
          else if serialize (pkb_getSignedPreKey preKey) = [] \<and>
                  serialize (pkb_getPreKey preKey) = []
          then (Inl (InvalidKeyException ''Both signed and unsigned prekeys are absent!''), w1)
          else
            let supportsV3 = (serialize (pkb_getSignedPreKey preKey) \<noteq> [])
            in case loadSession w1 remoteAddress of
                 (sessionRecord, w2) \<Rightarrow>
                   (case generateKeyPair w2 of
                      (ourBaseKey, w3) \<Rightarrow>
                        let theirSignedPreKey =
                              (if supportsV3 then pkb_getSignedPreKey preKey
                               else pkb_getPreKey preKey);
                            theirOneTimePreKey = pkb_getPreKey preKey;
                            theirOneTimePreKeyId =
                              sint (ucast (if serialize theirOneTimePreKey = [] then - 1
                                           else pkb_getPreKeyId preKey) :: 32 word)
                        in case getIdentityKeyPair w3 of
                             (ourIdentityKey, w4) \<Rightarrow>
                               let parameters =
                                     \<lparr>alice_ourBaseKey = ourBaseKey,
                                      alice_ourIdentityKey = ourIdentityKey,
                                      alice_theirIdentityKey = pkb_getIdentityKey preKey,
                                      alice_theirSignedPreKey = theirSignedPreKey,
                                      alice_theirRatchetKey = theirSignedPreKey,
                                      alice_theirOneTimePreKey =
                                        (if supportsV3 then Some theirOneTimePreKey else None)\<rparr>;
                                   r1 = (if \<not> isFresh sessionRecord
                                         then archiveCurrentState sessionRecord
                                         else sessionRecord);
                                   r2 = onSessionState
                                          (\<lambda>s. initializeSession P s (if supportsV3 then 3 else 2)
                                                  (Alice parameters)) r1;
                                   r3 = onSessionState
                                          (setUnacknowledgedPreKeyMessage theirOneTimePreKeyId
                                             (pkb_getSignedPreKeyId preKey)
                                             (kp_getPublicKey ourBaseKey)) r2
                               in case getLocalRegistrationId w4 of
                                    (localId, w5) \<Rightarrow>
                                      let r4 = onSessionState
                                                 (\<lambda>s. s\<lparr>localRegistrationId := localId\<rparr>) r3;
                                          r5 = onSessionState
                                                 (\<lambda>s. s\<lparr>remoteRegistrationId :=
                                                           pkb_getRegistrationId preKey\<rparr>) r4;
                                          r6 = onSessionState
                                                 (\<lambda>s. s\<lparr>aliceBaseKey :=
                                                           serialize (kp_getPublicKey ourBaseKey)\<rparr>) r5;
                                          w6 = storeSession w5 remoteAddress r6;
                                          w7 = saveIdentity w6 (getName remoteAddress)
                                                 (pkb_getIdentityKey preKey)
                                      in (Inr (), w7)))"

text \<open>\<^verbatim>\<open>process()\<close>, the outbound interactive initiate.\<close>

definition process_noargs ::
  "primitives \<Rightarrow> axolotl_address \<Rightarrow> world \<Rightarrow> key_exchange_message \<times> world" where
  "process_noargs P remoteAddress w =
     (case getRandomFFFF w of
        (sequence, w1) \<Rightarrow>
          let flags = INITIATE_FLAG
          in case generateKeyPair w1 of
               (baseKey, w2) \<Rightarrow>
                 (case generateKeyPair w2 of
                    (ratchetKey, w3) \<Rightarrow>
                      (case getIdentityKeyPair w3 of
                         (identityKey, w4) \<Rightarrow>
                           let baseKeySignature =
                                 calculateSignature P (ikp_getPrivateKey identityKey)
                                   (serialize (kp_getPublicKey baseKey))
                           in case loadSession w4 remoteAddress of
                                (sessionRecord, w5) \<Rightarrow>
                                  let r1 = onSessionState
                                             (setPendingKeyExchange sequence baseKey ratchetKey
                                                identityKey) sessionRecord;
                                      w6 = storeSession w5 remoteAddress r1
                                  in (KeyExchangeMessage 2 sequence flags
                                        (kp_getPublicKey baseKey) baseKeySignature
                                        (kp_getPublicKey ratchetKey)
                                        (ikp_getPublicKey identityKey), w6))))"

text \<open>
  \<^verbatim>\<open>processInitiate\<close>. The first branch draws our keys, the second reuses the
  pending exchange and adds the simultaneous-initiate flag.
\<close>

definition processInitiate ::
  "primitives \<Rightarrow> axolotl_address \<Rightarrow> world \<Rightarrow> key_exchange_message
     \<Rightarrow> (whisper_exception + key_exchange_message) \<times> world" where
  "processInitiate P remoteAddress w message =
     (case loadSession w remoteAddress of
        (sessionRecord, w1) \<Rightarrow>
          if kem_getVersion message \<ge> 3 \<and>
             \<not> verifySignature P (ik_getPublicKey (kem_getIdentityKey message))
                 (serialize (kem_getBaseKey message)) (kem_getBaseKeySignature message)
          then (Inl (InvalidKeyException ''Bad signature!''), w1)
          else
            case (if \<not> hasPendingKeyExchange (sessionState sessionRecord)
                  then (case getIdentityKeyPair w1 of
                          (ourIdentityKey, w2) \<Rightarrow>
                            (case generateKeyPair w2 of
                               (ourBaseKey, w3) \<Rightarrow>
                                 (case generateKeyPair w3 of
                                    (ourRatchetKey, w4) \<Rightarrow>
                                      ((ourIdentityKey, ourBaseKey, ourRatchetKey,
                                        RESPONSE_FLAG), w4))))
                  else ((getPendingKeyExchangeIdentityKey (sessionState sessionRecord),
                         getPendingKeyExchangeBaseKey (sessionState sessionRecord),
                         getPendingKeyExchangeRatchetKey (sessionState sessionRecord),
                         RESPONSE_FLAG OR SIMULTAENOUS_INITIATE_FLAG), w1)) of
              ((ourIdentityKey, ourBaseKey, ourRatchetKey, flags), w4) \<Rightarrow>
                let parameters =
                      \<lparr>sym_ourIdentityKey = ourIdentityKey,
                       sym_ourBaseKey = ourBaseKey,
                       sym_ourRatchetKey = ourRatchetKey,
                       sym_theirBaseKey = kem_getBaseKey message,
                       sym_theirRatchetKey = kem_getRatchetKey message,
                       sym_theirIdentityKey = kem_getIdentityKey message\<rparr>;
                    r1 = (if \<not> isFresh sessionRecord then archiveCurrentState sessionRecord
                          else sessionRecord);
                    r2 = onSessionState
                           (\<lambda>s. initializeSession P s
                                   (min (kem_getMaxVersion message) CURRENT_VERSION)
                                   (Symmetric parameters)) r1;
                    w5 = storeSession w4 remoteAddress r2;
                    w6 = saveIdentity w5 (getName remoteAddress) (kem_getIdentityKey message);
                    baseKeySignature =
                      calculateSignature P (ikp_getPrivateKey (sym_ourIdentityKey parameters))
                        (serialize (kp_getPublicKey (sym_ourBaseKey parameters)))
                in (Inr (KeyExchangeMessage (sessionVersion (sessionState r2))
                           (kem_getSequence message) flags
                           (kp_getPublicKey (sym_ourBaseKey parameters)) baseKeySignature
                           (kp_getPublicKey (sym_ourRatchetKey parameters))
                           (ikp_getPublicKey (sym_ourIdentityKey parameters))), w6))"

text \<open>
  Lines 288 to 301 of \<^verbatim>\<open>processResponse\<close>: the record after the symmetric parameters
  were taken from the pending exchange and the message, the current state was archived
  (unless the record is fresh) and the session was initialised.
\<close>

definition initializeResponse ::
  "primitives \<Rightarrow> session_record \<Rightarrow> key_exchange_message \<Rightarrow> session_record" where
  "initializeResponse P sessionRecord message =
     (let parameters =
            \<lparr>sym_ourIdentityKey = getPendingKeyExchangeIdentityKey (sessionState sessionRecord),
             sym_ourBaseKey = getPendingKeyExchangeBaseKey (sessionState sessionRecord),
             sym_ourRatchetKey = getPendingKeyExchangeRatchetKey (sessionState sessionRecord),
             sym_theirBaseKey = kem_getBaseKey message,
             sym_theirRatchetKey = kem_getRatchetKey message,
             sym_theirIdentityKey = kem_getIdentityKey message\<rparr>;
          r1 = (if \<not> isFresh sessionRecord then archiveCurrentState sessionRecord
                else sessionRecord)
      in onSessionState
           (\<lambda>s. initializeSession P s (min (kem_getMaxVersion message) CURRENT_VERSION)
                   (Symmetric parameters)) r1)"

text \<open>\<^verbatim>\<open>processResponse\<close>.\<close>

definition processResponse ::
  "primitives \<Rightarrow> axolotl_address \<Rightarrow> world \<Rightarrow> key_exchange_message
     \<Rightarrow> (whisper_exception + unit) \<times> world" where
  "processResponse P remoteAddress w message =
     (case loadSession w remoteAddress of
        (sessionRecord, w1) \<Rightarrow>
          let sessionState' = sessionState sessionRecord;
              hasPending = hasPendingKeyExchange sessionState';
              isSimultaneousInitiateResponse = isResponseForSimultaneousInitiate message
          in if \<not> hasPending \<or>
                getPendingKeyExchangeSequence sessionState' \<noteq> kem_getSequence message
             then (if \<not> isSimultaneousInitiateResponse
                   then (Inl (StaleKeyExchangeException []), w1)
                   else (Inr (), w1))
             else
               let r2 = initializeResponse P sessionRecord message
               in if sessionVersion (sessionState r2) \<ge> 3 \<and>
                     \<not> verifySignature P (ik_getPublicKey (kem_getIdentityKey message))
                         (serialize (kem_getBaseKey message)) (kem_getBaseKeySignature message)
                  then (Inl (InvalidKeyException ''Base key signature doesn't match!''), w1)
                  else
                    let w2 = storeSession w1 remoteAddress r2;
                        w3 = saveIdentity w2 (getName remoteAddress) (kem_getIdentityKey message)
                    in (Inr (), w3))"

text \<open>
  \<^verbatim>\<open>process(QSharedPointer<KeyExchangeMessage>)\<close>. On the response path the source
  returns a default-constructed message, which is \<open>None\<close> here.
\<close>

definition process_KeyExchangeMessage ::
  "primitives \<Rightarrow> axolotl_address \<Rightarrow> world \<Rightarrow> key_exchange_message
     \<Rightarrow> (whisper_exception + key_exchange_message option) \<times> world" where
  "process_KeyExchangeMessage P remoteAddress w message =
     (case isTrustedIdentity w (getName remoteAddress) (kem_getIdentityKey message) of
        (trusted, w1) \<Rightarrow>
          if \<not> trusted
          then (Inl (UntrustedIdentityException
                       (''Untrusted identity: '' @ getName remoteAddress)), w1)
          else if isInitiate message
          then (case processInitiate P remoteAddress w1 message of
                  (Inl e, w2) \<Rightarrow> (Inl e, w2)
                | (Inr responseMessage, w2) \<Rightarrow> (Inr (Some responseMessage), w2))
          else (case processResponse P remoteAddress w1 message of
                  (Inl e, w2) \<Rightarrow> (Inl e, w2)
                | (Inr u, w2) \<Rightarrow> (Inr None, w2)))"

subsection \<open>Concrete instances\<close>

text \<open>
  A toy instance of the primitives for evaluating the builder on concrete inputs: a
  signature is the serialised signing key followed by the message, a private key is the
  serialised public key, and the ratchet initialiser records the version it is given.
\<close>

definition toyPrimitives :: primitives where
  "toyPrimitives =
     \<lparr>verifySignature = (\<lambda>signingKey message signature. signature = serialize signingKey @ message),
      calculateSignature = (\<lambda>privateKey message. privateKey @ message),
      initializeSession = (\<lambda>s version parameters. s\<lparr>sessionVersion := version\<rparr>),
      MAX_VALUE = 0xFFFFFF\<rparr>"

definition aliceAddress :: axolotl_address where
  "aliceAddress = AxolotlAddress ''alice'' 1"

definition keyA :: identity_key where
  "keyA = IdentityKey (DjbECPublicKey [1])"

definition keyB :: identity_key where
  "keyB = IdentityKey (DjbECPublicKey [2])"

definition emptyWorld :: world where
  "emptyWorld =
     \<lparr>sessions = Map.empty, preKeys = Map.empty, signedPreKeys = Map.empty,
      identities = Map.empty,
      ourIdentityKeyPair = IdentityKeyPair (IdentityKey (DjbECPublicKey [9])) [9],
      ourRegistrationId = 5, calls = [],
      keyPairs = (\<lambda>n. ECKeyPair (DjbECPublicKey [of_nat n + 100]) [of_nat n + 100]),
      sequences = (\<lambda>n. 4242), drawn = 0\<rparr>"

text \<open>The stores after \<open>saveIdentity(''alice'', keyA)\<close>.\<close>

definition pinnedWorld :: world where
  "pinnedWorld = emptyWorld\<lparr>identities := [''alice'' \<mapsto> keyA]\<rparr>"

definition messageV3 :: "identity_key \<Rightarrow> ulong \<Rightarrow> pre_key_whisper_message" where
  "messageV3 identityKey preKeyId =
     \<lparr>pkwm_getMessageVersion = 3, pkwm_getRegistrationId = 42, pkwm_getPreKeyId = preKeyId,
      pkwm_getSignedPreKeyId = 7, pkwm_getBaseKey = DjbECPublicKey [33],
      pkwm_getIdentityKey = identityKey\<rparr>"

definition messageV2 :: "identity_key \<Rightarrow> ulong \<Rightarrow> pre_key_whisper_message" where
  "messageV2 identityKey preKeyId =
     \<lparr>pkwm_getMessageVersion = 2, pkwm_getRegistrationId = 42, pkwm_getPreKeyId = preKeyId,
      pkwm_getSignedPreKeyId = 0, pkwm_getBaseKey = DjbECPublicKey [33],
      pkwm_getIdentityKey = identityKey\<rparr>"

text \<open>
  A bundle whose signed pre-key is \<open>[7]\<close>. Under the toy scheme the signature of the
  signed pre-key under the identity key \<open>k\<close> is \<open>serialize k @ [7]\<close>.
\<close>

definition bundleWith :: "identity_key \<Rightarrow> bytes \<Rightarrow> pre_key_bundle" where
  "bundleWith identityKey signature =
     \<lparr>pkb_getRegistrationId = 42, pkb_getDeviceId = 1, pkb_getPreKeyId = 11,
      pkb_getPreKey = DjbECPublicKey [11], pkb_getSignedPreKeyId = 7,
      pkb_getSignedPreKey = DjbECPublicKey [7], pkb_getSignedPreKeySignature = signature,
      pkb_getIdentityKey = identityKey\<rparr>"

definition keyExchange :: "identity_key \<Rightarrow> int \<Rightarrow> int \<Rightarrow> bytes \<Rightarrow> key_exchange_message" where
  "keyExchange identityKey flags sequence signature =
     \<lparr>kem_getVersion = 3, kem_getMaxVersion = 3, kem_getSequence = sequence,
      kem_getFlags = flags, kem_getBaseKey = DjbECPublicKey [44],
      kem_getBaseKeySignature = signature, kem_getRatchetKey = DjbECPublicKey [55],
      kem_getIdentityKey = identityKey\<rparr>"

text \<open>Stores holding the signed pre-key 7 and the one-time pre-key 11.\<close>

definition bobWorld :: world where
  "bobWorld =
     emptyWorld\<lparr>preKeys := [11 \<mapsto> ECKeyPair (DjbECPublicKey [11]) [11]],
                signedPreKeys := [7 \<mapsto> ECKeyPair (DjbECPublicKey [7]) [7]]\<rparr>"

text \<open>
  The record that \<^verbatim>\<open>process()\<close> commits (lines 212 to 220): the session loaded for
  the address, with the pending key exchange set from the three draws and the local
  identity.
\<close>

definition initiateRecord :: "world \<Rightarrow> axolotl_address \<Rightarrow> session_record" where
  "initiateRecord w a =
     onSessionState
       (setPendingKeyExchange (sequences w (drawn w)) (keyPairs w (Suc (drawn w)))
          (keyPairs w (Suc (Suc (drawn w)))) (ourIdentityKeyPair w))
       (fst (loadSession w a))"

text \<open>The stores after \<^verbatim>\<open>process()\<close> on empty stores, and the session they hold for alice.\<close>

definition initiatedWorld :: world where
  "initiatedWorld = snd (process_noargs toyPrimitives aliceAddress emptyWorld)"

definition pendingRecord :: session_record where
  "pendingRecord =
     \<lparr>sessionState =
        blankSessionState\<lparr>pendingKeyExchange :=
          Some \<lparr>pke_sequence = 4242,
                pke_baseKey = ECKeyPair (DjbECPublicKey [101]) [101],
                pke_ratchetKey = ECKeyPair (DjbECPublicKey [102]) [102],
                pke_identityKey = IdentityKeyPair (IdentityKey (DjbECPublicKey [9])) [9]\<rparr>\<rparr>,
      previousStates = [], fresh = False\<rparr>"

text \<open>The peer's initiate, processed after our own \<^verbatim>\<open>process()\<close>.\<close>

definition peerInitiate :: "(whisper_exception + key_exchange_message) \<times> world" where
  "peerInitiate = processInitiate toyPrimitives aliceAddress initiatedWorld
                    (keyExchange keyA 1 17 [1, 44])"

text \<open>A first version-3 message on stores that hold its signed pre-key and its pre-key.\<close>

definition firstV3 :: "(whisper_exception + ulong) \<times> world \<times> session_record" where
  "firstV3 = process_PreKeyWhisperMessage toyPrimitives aliceAddress bobWorld newSessionRecord
               (messageV3 keyA 11)"

text \<open>
  Two bundles for the identity key \<open>[1]\<close> and the signed pre-key \<open>[7]\<close>. The signature of
  \<open>honestBundle\<close> is the one the identity key gives on the signed pre-key; the signature
  of \<open>forgedBundle\<close> is the one the signed pre-key gives on the identity key.
\<close>

definition honestBundle :: pre_key_bundle where
  "honestBundle = bundleWith keyA [1, 7]"

definition forgedBundle :: pre_key_bundle where
  "forgedBundle = bundleWith keyA [7, 1]"

text \<open>The stores of \<open>bobWorld\<close> with one more pre-key, stored under \<^verbatim>\<open>Medium::MAX_VALUE\<close>.\<close>

definition bobWorldMax :: world where
  "bobWorldMax =
     bobWorld\<lparr>preKeys := (preKeys bobWorld)(MAX_VALUE toyPrimitives \<mapsto>
                  ECKeyPair (DjbECPublicKey [12]) [12])\<rparr>"

text \<open>A version-3 message whose pre-key id is \<^verbatim>\<open>Medium::MAX_VALUE\<close>, on \<open>bobWorld\<close>.\<close>

definition maxValueV3 :: "(whisper_exception + ulong) \<times> world \<times> session_record" where
  "maxValueV3 = process_PreKeyWhisperMessage toyPrimitives aliceAddress bobWorld newSessionRecord
                  (messageV3 keyA (MAX_VALUE toyPrimitives))"

text \<open>
  A version-2 message whose pre-key id is the value the source writes as \<^verbatim>\<open>-1\<close> for
  an absent id (lines 70, 100, 113, 138), held in the unsigned id: \<open>2^64 - 1\<close>. A session
  for alice exists.
\<close>

definition minusOneV2 :: "(whisper_exception + ulong) \<times> world \<times> session_record" where
  "minusOneV2 = process_PreKeyWhisperMessage toyPrimitives aliceAddress initiatedWorld
                  pendingRecord (messageV2 keyA (- 1))"


text \<open>
  A version-2 message for the pre-key 11, which the store does not hold, while a session
  for alice exists.
\<close>

definition replayedV2 :: "(whisper_exception + ulong) \<times> world \<times> session_record" where
  "replayedV2 = process_PreKeyWhisperMessage toyPrimitives aliceAddress initiatedWorld
                  pendingRecord (messageV2 keyA 11)"

section \<open>Properties\<close>

subsection \<open>Unfolding and evaluation\<close>

lemmas store_defs = isTrustedIdentity_def saveIdentity_def getIdentityKeyPair_def
  getLocalRegistrationId_def loadSession_def containsSession_def storeSession_def
  containsPreKey_def loadPreKey_def loadSignedPreKey_def logged_def generateKeyPair_def
  getRandomFFFF_def

lemmas record_defs = newSessionRecord_def blankSessionState_def isFresh_def
  archiveCurrentState_def hasSessionState_def onSessionState_def hasPendingKeyExchange_def
  getPendingKeyExchangeSequence_def getPendingKeyExchangeBaseKey_def
  getPendingKeyExchangeRatchetKey_def getPendingKeyExchangeIdentityKey_def
  setPendingKeyExchange_def setUnacknowledgedPreKeyMessage_def

lemmas instance_defs = toyPrimitives_def aliceAddress_def keyA_def keyB_def emptyWorld_def
  pinnedWorld_def messageV3_def messageV2_def bundleWith_def keyExchange_def bobWorld_def

lemmas builder_defs = process_PreKeyWhisperMessage_def processV2_def processV3_def
  installBobSession_def process_PreKeyBundle_def process_noargs_def processInitiate_def
  processResponse_def initializeResponse_def process_KeyExchangeMessage_def

lemma loadSession_logged [simp]: "fst (loadSession (logged c w) a) = fst (loadSession w a)"
  by (simp add: loadSession_def logged_def)

lemma loadSession_snd: "snd (loadSession w a) = logged (LoadSession a) w"
  by (simp add: loadSession_def)

lemma saveIdentity_trusted: "fst (isTrustedIdentity (saveIdentity w n k) n k)"
  by (simp add: isTrustedIdentity_def saveIdentity_def logged_def)

lemma aliceAddress_name: "getName aliceAddress = ''alice''"
  by (simp add: aliceAddress_def)

text \<open>\<^verbatim>\<open>process()\<close> in one step: the message it returns and the stores it leaves.\<close>

lemma process_noargs_eval:
  "process_noargs P a w =
     (KeyExchangeMessage 2 (sequences w (drawn w)) INITIATE_FLAG
        (kp_getPublicKey (keyPairs w (Suc (drawn w))))
        (calculateSignature P (ikp_getPrivateKey (ourIdentityKeyPair w))
           (serialize (kp_getPublicKey (keyPairs w (Suc (drawn w))))))
        (kp_getPublicKey (keyPairs w (Suc (Suc (drawn w)))))
        (ikp_getPublicKey (ourIdentityKeyPair w)),
      w\<lparr>sessions := (sessions w)(a \<mapsto> initiateRecord w a),
        calls := calls w @ [GetIdentityKeyPair, LoadSession a, StoreSession a (initiateRecord w a)],
        drawn := Suc (Suc (Suc (drawn w)))\<rparr>)"
  by (simp add: process_noargs_def initiateRecord_def Let_def getRandomFFFF_def
        generateKeyPair_def getIdentityKeyPair_def loadSession_def storeSession_def logged_def)

lemma initiatedWorld_sessions: "sessions initiatedWorld aliceAddress = Some pendingRecord"
  by (simp add: initiatedWorld_def process_noargs_eval initiateRecord_def pendingRecord_def
        store_defs record_defs instance_defs)

lemma initiatedWorld_session: "fst (loadSession initiatedWorld aliceAddress) = pendingRecord"
  by (simp add: loadSession_def initiatedWorld_sessions)

lemma initiatedWorld_identities: "identities initiatedWorld = Map.empty"
  by (simp add: initiatedWorld_def process_noargs_eval instance_defs)

lemma initiatedWorld_preKeys: "preKeys initiatedWorld = Map.empty"
  by (simp add: initiatedWorld_def process_noargs_eval instance_defs)

subsection \<open>The identity gate\<close>

text \<open>
  C1. Each of the three entry points that receive a remote identity key asks the identity
  store first. If \<open>isTrustedIdentity\<close> answers false, the call fails with
  \<open>UntrustedIdentity\<close>; the stores (and the session record passed in) are as they were,
  and the one call in the log is the trust question itself, so no other store read or
  write came before the failure. The last conjunct is the particular case of the claim:
  once \<open>saveIdentity(n, K)\<close> has pinned \<open>K\<close>, a different key \<open>K'\<close> is not trusted.
\<close>

theorem untrusted_identity_fails_first:
  "(\<not> fst (isTrustedIdentity w (getName a) (pkwm_getIdentityKey pm)) \<longrightarrow>
      process_PreKeyWhisperMessage P a w r pm =
        (Inl (UntrustedIdentityException (''Untrusted identity: '' @ getName a)),
         logged (IsTrustedIdentity (getName a) (pkwm_getIdentityKey pm)) w, r)) \<and>
   (\<not> fst (isTrustedIdentity w (getName a) (pkb_getIdentityKey b)) \<longrightarrow>
      process_PreKeyBundle P a w b =
        (Inl (UntrustedIdentityException (''Untrusted identity: '' @ getName a)),
         logged (IsTrustedIdentity (getName a) (pkb_getIdentityKey b)) w)) \<and>
   (\<not> fst (isTrustedIdentity w (getName a) (kem_getIdentityKey km)) \<longrightarrow>
      process_KeyExchangeMessage P a w km =
        (Inl (UntrustedIdentityException (''Untrusted identity: '' @ getName a)),
         logged (IsTrustedIdentity (getName a) (kem_getIdentityKey km)) w)) \<and>
   (K' \<noteq> K \<longrightarrow> \<not> fst (isTrustedIdentity (saveIdentity w0 n K) n K'))"
  by (simp add: process_PreKeyWhisperMessage_def process_PreKeyBundle_def
        process_KeyExchangeMessage_def isTrustedIdentity_def saveIdentity_def logged_def)

text \<open>
  The gate at work: \<open>keyA\<close> is pinned for alice, and a message, a bundle and a key
  exchange presenting \<open>keyB\<close> are each refused.
\<close>

theorem untrusted_identity_fails_first_witness:
  "keyB \<noteq> keyA \<and>
   \<not> fst (isTrustedIdentity (saveIdentity emptyWorld ''alice'' keyA) ''alice'' keyB) \<and>
   process_PreKeyWhisperMessage toyPrimitives aliceAddress (saveIdentity emptyWorld ''alice'' keyA)
       newSessionRecord (messageV3 keyB 11) =
     (Inl (UntrustedIdentityException ''Untrusted identity: alice''),
      logged (IsTrustedIdentity ''alice'' keyB) (saveIdentity emptyWorld ''alice'' keyA),
      newSessionRecord) \<and>
   process_PreKeyBundle toyPrimitives aliceAddress (saveIdentity emptyWorld ''alice'' keyA)
       (bundleWith keyB [2, 7]) =
     (Inl (UntrustedIdentityException ''Untrusted identity: alice''),
      logged (IsTrustedIdentity ''alice'' keyB) (saveIdentity emptyWorld ''alice'' keyA)) \<and>
   process_KeyExchangeMessage toyPrimitives aliceAddress (saveIdentity emptyWorld ''alice'' keyA)
       (keyExchange keyB 1 17 [2, 44]) =
     (Inl (UntrustedIdentityException ''Untrusted identity: alice''),
      logged (IsTrustedIdentity ''alice'' keyB) (saveIdentity emptyWorld ''alice'' keyA))"
proof -
  have ne: "keyB \<noteq> keyA"
    by (simp add: keyA_def keyB_def)
  have k1: "pkwm_getIdentityKey (messageV3 keyB 11) = keyB"
    by (simp add: messageV3_def)
  have k2: "pkb_getIdentityKey (bundleWith keyB [2, 7]) = keyB"
    by (simp add: bundleWith_def)
  have k3: "kem_getIdentityKey (keyExchange keyB 1 17 [2, 44]) = keyB"
    by (simp add: keyExchange_def)
  show ?thesis
    using ne untrusted_identity_fails_first
      [of "saveIdentity emptyWorld ''alice'' keyA" aliceAddress "messageV3 keyB 11"
          toyPrimitives newSessionRecord "bundleWith keyB [2, 7]"
          "keyExchange keyB 1 17 [2, 44]" keyB keyA emptyWorld "''alice''"]
    by (simp add: aliceAddress_name k1 k2 k3)
qed

subsection \<open>Inbound first messages\<close>

text \<open>
  After \<open>installBobSession\<close> the current state carries the message's version and base
  key, provided the ratchet initialiser records the version it is given; so
  \<open>hasSessionState\<close> holds after every normal return of \<open>processV3\<close>.
\<close>

lemma installBobSession_hasSessionState:
  assumes "\<forall>s p. sessionVersion (initializeSession P s (pkwm_getMessageVersion m) p) =
             pkwm_getMessageVersion m"
    and "installBobSession P w r m ps = (Inr i, w', r')"
  shows "hasSessionState r' (pkwm_getMessageVersion m) (serialize (pkwm_getBaseKey m))"
  using assms
  by (auto simp: installBobSession_def getLocalRegistrationId_def hasSessionState_def
        onSessionState_def Let_def split: if_splits)

lemma processV3_hasSessionState:
  assumes "\<forall>s p. sessionVersion (initializeSession P s (pkwm_getMessageVersion m) p) =
             pkwm_getMessageVersion m"
    and "processV3 P a w r m = (Inr i, w', r')"
  shows "hasSessionState r' (pkwm_getMessageVersion m) (serialize (pkwm_getBaseKey m))"
proof (cases "hasSessionState r (pkwm_getMessageVersion m) (serialize (pkwm_getBaseKey m))")
  case True
  with assms(2) show ?thesis by (simp add: processV3_def)
next
  case False
  with assms(2) obtain w0 ps where "installBobSession P w0 r m ps = (Inr i, w', r')"
    by (auto simp: processV3_def Let_def getIdentityKeyPair_def
          split: prod.splits sum.splits if_splits)
  with assms(1) show ?thesis by (rule installBobSession_hasSessionState)
qed

lemma process_PreKeyWhisperMessage_Inr:
  assumes "process_PreKeyWhisperMessage P a w r m = (Inr i, w', r')"
    and "pkwm_getMessageVersion m = 3"
  shows "\<exists>w1. processV3 P a (logged (IsTrustedIdentity (getName a) (pkwm_getIdentityKey m)) w) r m
                 = (Inr i, w1, r')
           \<and> w' = saveIdentity w1 (getName a) (pkwm_getIdentityKey m)"
  using assms
  by (auto simp: process_PreKeyWhisperMessage_def Let_def isTrustedIdentity_def
        split: prod.splits sum.splits if_splits)

text \<open>
  C2, as the code has it. Two consecutive calls of
  \<open>process(sessionRecord, preKeyWhisperMessage)\<close> on the same record, with version-3
  messages that share the base key and the identity key: when the first call returns
  normally (with whatever pre-key id \<open>i1\<close>), the second returns the absent id (\<open>-1\<close> as
  \<^verbatim>\<open>ulong\<close>) and the record is exactly the one the first call left. The second call
  touches the stores only through the identity store (the trust question and the renewed
  pin). After the first call the sender's key is pinned, so the second message passes the
  identity gate exactly when it presents the same key. The ratchet initialiser is a
  parameter; the theorem asks of it that it records the version it is given, as section
  4.2.2 of the specification says ("initialize session with version 3").
\<close>

theorem duplicate_v3_message_is_idempotent:
  assumes init: "\<forall>s p. sessionVersion (initializeSession P s 3 p) = 3"
    and v1: "pkwm_getMessageVersion m1 = 3"
    and v2: "pkwm_getMessageVersion m2 = 3"
    and bk: "pkwm_getBaseKey m2 = pkwm_getBaseKey m1"
    and ik: "pkwm_getIdentityKey m2 = pkwm_getIdentityKey m1"
    and first: "process_PreKeyWhisperMessage P a w r m1 = (Inr i1, w1, r1)"
  shows "process_PreKeyWhisperMessage P a w1 r1 m2 =
           (Inr (- 1),
            saveIdentity (logged (IsTrustedIdentity (getName a) (pkwm_getIdentityKey m2)) w1)
              (getName a) (pkwm_getIdentityKey m2),
            r1)"
proof -
  from first v1 obtain w' where
    p3: "processV3 P a (logged (IsTrustedIdentity (getName a) (pkwm_getIdentityKey m1)) w) r m1
           = (Inr i1, w', r1)"
    and w1: "w1 = saveIdentity w' (getName a) (pkwm_getIdentityKey m1)"
    using process_PreKeyWhisperMessage_Inr by blast
  from init v1 have "\<forall>s p. sessionVersion (initializeSession P s (pkwm_getMessageVersion m1) p)
      = pkwm_getMessageVersion m1" by simp
  from processV3_hasSessionState [OF this p3]
  have dup: "hasSessionState r1 (pkwm_getMessageVersion m2) (serialize (pkwm_getBaseKey m2))"
    by (simp add: v1 v2 bk)
  have tr: "fst (isTrustedIdentity w1 (getName a) (pkwm_getIdentityKey m2))"
    unfolding w1 ik by (rule saveIdentity_trusted)
  have "processV3 P a (logged (IsTrustedIdentity (getName a) (pkwm_getIdentityKey m2)) w1) r1 m2
          = (Inr (- 1), logged (IsTrustedIdentity (getName a) (pkwm_getIdentityKey m2)) w1, r1)"
    using dup by (simp add: processV3_def)
  with tr v2 show ?thesis
    by (simp add: process_PreKeyWhisperMessage_def Let_def isTrustedIdentity_def)
qed

lemma firstV3_fst: "fst firstV3 = Inr 11"
  by (simp add: firstV3_def process_PreKeyWhisperMessage_def processV3_def
        installBobSession_def Let_def store_defs record_defs instance_defs)

text \<open>
  The first message consumes the pre-key 11; a second message with the same base key (and
  another pre-key id) returns the absent id and leaves the record alone.
\<close>

theorem duplicate_v3_message_is_idempotent_witness:
  "fst firstV3 = Inr 11 \<and>
   process_PreKeyWhisperMessage toyPrimitives aliceAddress (fst (snd firstV3)) (snd (snd firstV3))
       (messageV3 keyA 12) =
     (Inr (- 1),
      saveIdentity (logged (IsTrustedIdentity ''alice'' keyA) (fst (snd firstV3))) ''alice'' keyA,
      snd (snd firstV3))"
proof -
  have init: "\<forall>s p. sessionVersion (initializeSession toyPrimitives s 3 p) = 3"
    by (simp add: toyPrimitives_def)
  have first: "process_PreKeyWhisperMessage toyPrimitives aliceAddress bobWorld newSessionRecord
                 (messageV3 keyA 11) = (Inr 11, fst (snd firstV3), snd (snd firstV3))"
    using firstV3_fst by (simp add: firstV3_def prod_eq_iff)
  show ?thesis
    using firstV3_fst
      duplicate_v3_message_is_idempotent [OF init _ _ _ _ first, of "messageV3 keyA 12"]
    by (simp add: messageV3_def aliceAddress_def)
qed

lemma firstV3_identities: "identities (fst (snd firstV3)) = [''alice'' \<mapsto> keyA]"
  by (simp add: firstV3_def process_PreKeyWhisperMessage_def processV3_def
        installBobSession_def Let_def store_defs record_defs instance_defs)

text \<open>
  Where the claim as stated fails: the second message has the version and the base key of
  the first, and another identity key. The first call has pinned \<open>keyA\<close>, so the second
  is refused at the identity gate instead of returning the absent id.
\<close>

theorem duplicate_v3_other_identity_refused:
  "fst firstV3 = Inr 11 \<and>
   pkwm_getMessageVersion (messageV3 keyB 11) = pkwm_getMessageVersion (messageV3 keyA 11) \<and>
   pkwm_getBaseKey (messageV3 keyB 11) = pkwm_getBaseKey (messageV3 keyA 11) \<and>
   process_PreKeyWhisperMessage toyPrimitives aliceAddress (fst (snd firstV3)) (snd (snd firstV3))
       (messageV3 keyB 11) =
     (Inl (UntrustedIdentityException ''Untrusted identity: alice''),
      logged (IsTrustedIdentity ''alice'' keyB) (fst (snd firstV3)),
      snd (snd firstV3))"
  by (simp add: firstV3_fst firstV3_identities process_PreKeyWhisperMessage_def Let_def
        isTrustedIdentity_def messageV3_def aliceAddress_name keyA_def keyB_def)

text \<open>
  C5, as the code has it. In the version-3 path, once the duplicate check has passed and
  the signed pre-key has loaded, the builder decides by the sign test of line 83
  (\<^verbatim>\<open>getPreKeyId() >= 0\<close>), not by \<^verbatim>\<open>Medium::MAX_VALUE\<close>. For every pre-key id
  that is non-negative also when read as a signed value, \<^verbatim>\<open>MAX_VALUE\<close> included, it
  asks the pre-key store for that id: a stored key is set as the one-time pre-key of the
  Bob parameters the session is initialised with, and a missing key makes the call fail
  with the store's \<open>InvalidKeyId\<close>, the record untouched. \<^verbatim>\<open>MAX_VALUE\<close> only decides
  what is returned after the session is installed (line 97): the id, or \<open>-1\<close> for
  \<^verbatim>\<open>MAX_VALUE\<close>. The ids that are negative when read as signed, among them the value the
  source writes as \<^verbatim>\<open>-1\<close> for an absent id, are left out of this statement.
\<close>

theorem v3_looks_up_one_time_pre_key:
  assumes nodup: "\<not> hasSessionState r (pkwm_getMessageVersion m) (serialize (pkwm_getBaseKey m))"
    and signed: "signedPreKeys w (pkwm_getSignedPreKeyId m) = Some ourSignedPreKey"
    and nonneg: "0 \<le> sint (pkwm_getPreKeyId m)"
  shows "(preKeys w (pkwm_getPreKeyId m) = Some ourOneTimePreKey \<longrightarrow>
            processV3 P a w r m =
              installBobSession P
                (w\<lparr>calls := calls w @
                    [LoadSignedPreKey (pkwm_getSignedPreKeyId m), GetIdentityKeyPair,
                     LoadPreKey (pkwm_getPreKeyId m)]\<rparr>)
                r m
                \<lparr>bob_ourIdentityKey = ourIdentityKeyPair w,
                 bob_ourSignedPreKey = ourSignedPreKey,
                 bob_ourRatchetKey = ourSignedPreKey,
                 bob_ourOneTimePreKey = Some ourOneTimePreKey,
                 bob_theirIdentityKey = pkwm_getIdentityKey m,
                 bob_theirBaseKey = pkwm_getBaseKey m\<rparr>) \<and>
         (preKeys w (pkwm_getPreKeyId m) = None \<longrightarrow>
            processV3 P a w r m =
              (Inl (InvalidKeyIdException []),
               w\<lparr>calls := calls w @
                   [LoadSignedPreKey (pkwm_getSignedPreKeyId m), GetIdentityKeyPair,
                    LoadPreKey (pkwm_getPreKeyId m)]\<rparr>,
               r)) \<and>
         fst (installBobSession P w' r m parameters) =
           Inr (if pkwm_getPreKeyId m \<noteq> MAX_VALUE P then pkwm_getPreKeyId m else - 1)"
  using nodup signed
  by (simp add: processV3_def installBobSession_def Let_def store_defs)

text \<open>
  The pre-key 11 is loaded and set; so is the pre-key stored under \<^verbatim>\<open>MAX_VALUE\<close>, and
  the call then returns \<open>-1\<close>; without a pre-key under \<^verbatim>\<open>MAX_VALUE\<close> the lookup fails.
\<close>

theorem v3_looks_up_one_time_pre_key_witness:
  "processV3 toyPrimitives aliceAddress bobWorld newSessionRecord (messageV3 keyA 11) =
     installBobSession toyPrimitives
       (bobWorld\<lparr>calls := [LoadSignedPreKey 7, GetIdentityKeyPair, LoadPreKey 11]\<rparr>)
       newSessionRecord (messageV3 keyA 11)
       \<lparr>bob_ourIdentityKey = IdentityKeyPair (IdentityKey (DjbECPublicKey [9])) [9],
        bob_ourSignedPreKey = ECKeyPair (DjbECPublicKey [7]) [7],
        bob_ourRatchetKey = ECKeyPair (DjbECPublicKey [7]) [7],
        bob_ourOneTimePreKey = Some (ECKeyPair (DjbECPublicKey [11]) [11]),
        bob_theirIdentityKey = keyA,
        bob_theirBaseKey = DjbECPublicKey [33]\<rparr> \<and>
   processV3 toyPrimitives aliceAddress bobWorldMax newSessionRecord
       (messageV3 keyA (MAX_VALUE toyPrimitives)) =
     installBobSession toyPrimitives
       (bobWorldMax\<lparr>calls := [LoadSignedPreKey 7, GetIdentityKeyPair,
                                LoadPreKey (MAX_VALUE toyPrimitives)]\<rparr>)
       newSessionRecord (messageV3 keyA (MAX_VALUE toyPrimitives))
       \<lparr>bob_ourIdentityKey = IdentityKeyPair (IdentityKey (DjbECPublicKey [9])) [9],
        bob_ourSignedPreKey = ECKeyPair (DjbECPublicKey [7]) [7],
        bob_ourRatchetKey = ECKeyPair (DjbECPublicKey [7]) [7],
        bob_ourOneTimePreKey = Some (ECKeyPair (DjbECPublicKey [12]) [12]),
        bob_theirIdentityKey = keyA,
        bob_theirBaseKey = DjbECPublicKey [33]\<rparr> \<and>
   fst (processV3 toyPrimitives aliceAddress bobWorldMax newSessionRecord
          (messageV3 keyA (MAX_VALUE toyPrimitives))) = Inr (- 1) \<and>
   processV3 toyPrimitives aliceAddress bobWorld newSessionRecord
       (messageV3 keyA (MAX_VALUE toyPrimitives)) =
     (Inl (InvalidKeyIdException []),
      bobWorld\<lparr>calls := [LoadSignedPreKey 7, GetIdentityKeyPair,
                             LoadPreKey (MAX_VALUE toyPrimitives)]\<rparr>,
      newSessionRecord)"
proof -
  have mv: "MAX_VALUE toyPrimitives = 0xFFFFFF"
    by (simp add: toyPrimitives_def)
  have nodup: "\<And>i. \<not> hasSessionState newSessionRecord (pkwm_getMessageVersion (messageV3 keyA i))
                   (serialize (pkwm_getBaseKey (messageV3 keyA i)))"
    by (simp add: hasSessionState_def newSessionRecord_def blankSessionState_def messageV3_def)
  have s1: "\<And>i. signedPreKeys bobWorld (pkwm_getSignedPreKeyId (messageV3 keyA i)) =
              Some (ECKeyPair (DjbECPublicKey [7]) [7])"
    by (simp add: bobWorld_def emptyWorld_def messageV3_def)
  have s2: "\<And>i. signedPreKeys bobWorldMax (pkwm_getSignedPreKeyId (messageV3 keyA i)) =
              Some (ECKeyPair (DjbECPublicKey [7]) [7])"
    by (simp add: bobWorldMax_def bobWorld_def emptyWorld_def messageV3_def)
  have n1: "0 \<le> sint (pkwm_getPreKeyId (messageV3 keyA 11))"
    by (simp add: messageV3_def)
  have n2: "0 \<le> sint (pkwm_getPreKeyId (messageV3 keyA (MAX_VALUE toyPrimitives)))"
    by (simp add: messageV3_def mv)
  have k1: "preKeys bobWorld (pkwm_getPreKeyId (messageV3 keyA 11)) =
              Some (ECKeyPair (DjbECPublicKey [11]) [11])"
    by (simp add: bobWorld_def emptyWorld_def messageV3_def)
  have k2: "preKeys bobWorldMax (pkwm_getPreKeyId (messageV3 keyA (MAX_VALUE toyPrimitives))) =
              Some (ECKeyPair (DjbECPublicKey [12]) [12])"
    by (simp add: bobWorldMax_def messageV3_def)
  have k3: "preKeys bobWorld (pkwm_getPreKeyId (messageV3 keyA (MAX_VALUE toyPrimitives))) = None"
    by (simp add: bobWorld_def emptyWorld_def messageV3_def mv)
  have c: "calls bobWorld = []" "calls bobWorldMax = []"
      "ourIdentityKeyPair bobWorld = IdentityKeyPair (IdentityKey (DjbECPublicKey [9])) [9]"
      "ourIdentityKeyPair bobWorldMax = IdentityKeyPair (IdentityKey (DjbECPublicKey [9])) [9]"
    by (simp_all add: bobWorldMax_def bobWorld_def emptyWorld_def)
  have f: "\<And>i. pkwm_getPreKeyId (messageV3 keyA i) = i"
      "\<And>i. pkwm_getSignedPreKeyId (messageV3 keyA i) = 7"
      "\<And>i. pkwm_getIdentityKey (messageV3 keyA i) = keyA"
      "\<And>i. pkwm_getBaseKey (messageV3 keyA i) = DjbECPublicKey [33]"
    by (simp_all add: messageV3_def)
  show ?thesis
    using v3_looks_up_one_time_pre_key [OF nodup s1 n1, of "ECKeyPair (DjbECPublicKey [11]) [11]"
          toyPrimitives aliceAddress]
      v3_looks_up_one_time_pre_key [OF nodup s2 n2, of "ECKeyPair (DjbECPublicKey [12]) [12]"
          toyPrimitives aliceAddress]
      v3_looks_up_one_time_pre_key [OF nodup s1 n2, of "ECKeyPair (DjbECPublicKey [12]) [12]"
          toyPrimitives aliceAddress]
      k1 k2 k3
    by (simp add: c f)
qed

text \<open>
  Where the claim as stated fails: the message's pre-key id is \<^verbatim>\<open>MAX_VALUE\<close>, the
  stores hold the signed pre-key 7, and the builder does call \<open>loadPreKey(MAX_VALUE)\<close>;
  the store has no such key, and the call fails.
\<close>

theorem v3_looks_up_pre_key_for_MAX_VALUE:
  "pkwm_getPreKeyId (messageV3 keyA (MAX_VALUE toyPrimitives)) = MAX_VALUE toyPrimitives \<and>
   fst maxValueV3 = Inl (InvalidKeyIdException []) \<and>
   calls (fst (snd maxValueV3)) =
     [IsTrustedIdentity ''alice'' keyA, LoadSignedPreKey 7, GetIdentityKeyPair,
      LoadPreKey (MAX_VALUE toyPrimitives)]"
  by (simp add: maxValueV3_def builder_defs Let_def store_defs record_defs instance_defs)

text \<open>
  On the unsigned id the test of line 83 is true of every value, so the lookup is made for
  every message that comes this far.
\<close>

lemma processV3_always_loads_pre_key:
  assumes "\<not> hasSessionState r (pkwm_getMessageVersion m) (serialize (pkwm_getBaseKey m))"
    and "signedPreKeys w (pkwm_getSignedPreKeyId m) = Some k"
  shows "LoadPreKey (pkwm_getPreKeyId m) \<in> set (calls (fst (snd (processV3 P a w r m))))"
  using assms
  by (simp add: processV3_def installBobSession_def Let_def store_defs split: option.splits)

text \<open>
  The guard of \<open>processV2\<close> (line 106, \<^verbatim>\<open>getPreKeyId() < 0\<close>) is false of every
  unsigned id, so \<open>processV2\<close> is its second part.
\<close>

lemma processV2_guard_never_fires:
  "processV2 P a w r m =
     (case containsPreKey w (pkwm_getPreKeyId m) of
        (hasPreKey, w1) \<Rightarrow>
          (case (if \<not> hasPreKey then containsSession w1 a else (False, w1)) of
             (hasSession, w2) \<Rightarrow>
               if \<not> hasPreKey \<and> hasSession then (Inr (- 1), w2, r)
               else
                 (case loadPreKey w2 (pkwm_getPreKeyId m) of
                    (Inl e, w3) \<Rightarrow> (Inl e, w3, r)
                  | (Inr ourPreKey, w3) \<Rightarrow>
                      (case getIdentityKeyPair w3 of
                         (ourIdentityKey, w4) \<Rightarrow>
                           installBobSession P w4 r m
                             \<lparr>bob_ourIdentityKey = ourIdentityKey,
                              bob_ourSignedPreKey = ourPreKey,
                              bob_ourRatchetKey = ourPreKey,
                              bob_ourOneTimePreKey = None,
                              bob_theirIdentityKey = pkwm_getIdentityKey m,
                              bob_theirBaseKey = pkwm_getBaseKey m\<rparr>))))"
  by (simp add: processV2_def)

text \<open>
  C6. The claim is that a version-2 message whose pre-key id is absent fails with
  \<open>InvalidKeyId\<close> before any change. The code means to do so: line 106 throws
  "V2 message requires one time prekey id!" when \<^verbatim>\<open>getPreKeyId() < 0\<close>. But the id is
  unsigned, and the absent value \<^verbatim>\<open>-1\<close> held in it is \<open>2^64 - 1\<close>: negative when read
  as signed, not below zero as the code reads it. So the guard does not fire. Here a
  session for alice exists and the message carries that value: the call returns normally
  with \<open>-1\<close> and pins the sender's identity key.
\<close>

theorem v2_accepts_absent_pre_key_id:
  "sessions initiatedWorld aliceAddress \<noteq> None \<and>
   sint (pkwm_getPreKeyId (messageV2 keyA (- 1))) = - 1 \<and>
   \<not> pkwm_getPreKeyId (messageV2 keyA (- 1)) < 0 \<and>
   minusOneV2 =
     (Inr (- 1),
      initiatedWorld\<lparr>identities := [''alice'' \<mapsto> keyA],
        calls := calls initiatedWorld @
          [IsTrustedIdentity ''alice'' keyA, ContainsPreKey (- 1),
           ContainsSession aliceAddress, SaveIdentity ''alice'' keyA]\<rparr>,
      pendingRecord)"
  by (simp add: minusOneV2_def builder_defs Let_def store_defs initiatedWorld_sessions
        initiatedWorld_preKeys initiatedWorld_identities messageV2_def aliceAddress_name)

text \<open>
  C7, as the code has it. For a version-2 message that passes the identity gate and whose
  pre-key id is not in the pre-key store: if a session exists for the remote address, the
  call returns the absent id (\<open>-1\<close>); the session record and the session, pre-key and
  signed-pre-key stores are unchanged, and the one write is \<open>saveIdentity\<close>, which pins
  the message's identity key (line 63 runs after every normal return of \<open>processV2\<close>).
  If no session exists, the call fails with the store's \<open>InvalidKeyId\<close> and nothing is
  written at all. The log lists the store calls made in either case.
\<close>

theorem v2_missing_pre_key:
  assumes v2: "pkwm_getMessageVersion m = 2"
    and trusted: "fst (isTrustedIdentity w (getName a) (pkwm_getIdentityKey m))"
    and missing: "preKeys w (pkwm_getPreKeyId m) = None"
  shows "(sessions w a \<noteq> None \<longrightarrow>
            process_PreKeyWhisperMessage P a w r m =
              (Inr (- 1),
               w\<lparr>identities := (identities w)(getName a \<mapsto> pkwm_getIdentityKey m),
                 calls := calls w @
                   [IsTrustedIdentity (getName a) (pkwm_getIdentityKey m),
                    ContainsPreKey (pkwm_getPreKeyId m), ContainsSession a,
                    SaveIdentity (getName a) (pkwm_getIdentityKey m)]\<rparr>,
               r)) \<and>
         (sessions w a = None \<longrightarrow>
            process_PreKeyWhisperMessage P a w r m =
              (Inl (InvalidKeyIdException []),
               w\<lparr>calls := calls w @
                   [IsTrustedIdentity (getName a) (pkwm_getIdentityKey m),
                    ContainsPreKey (pkwm_getPreKeyId m), ContainsSession a,
                    LoadPreKey (pkwm_getPreKeyId m)]\<rparr>,
               r))"
  using assms
  by (auto simp: process_PreKeyWhisperMessage_def processV2_def Let_def store_defs)

text \<open>Both cases at the pre-key id 11: with the session of \<open>initiatedWorld\<close>, and without.\<close>

theorem v2_missing_pre_key_witness:
  "replayedV2 =
     (Inr (- 1),
      initiatedWorld\<lparr>identities := (identities initiatedWorld)(''alice'' \<mapsto> keyA),
        calls := calls initiatedWorld @
          [IsTrustedIdentity ''alice'' keyA, ContainsPreKey 11, ContainsSession aliceAddress,
           SaveIdentity ''alice'' keyA]\<rparr>,
      pendingRecord) \<and>
   process_PreKeyWhisperMessage toyPrimitives aliceAddress emptyWorld newSessionRecord
       (messageV2 keyA 11) =
     (Inl (InvalidKeyIdException []),
      emptyWorld\<lparr>calls := calls emptyWorld @
          [IsTrustedIdentity ''alice'' keyA, ContainsPreKey 11, ContainsSession aliceAddress,
           LoadPreKey 11]\<rparr>,
      newSessionRecord)"
proof -
  have v2: "pkwm_getMessageVersion (messageV2 keyA 11) = 2"
    by (simp add: messageV2_def)
  have t1: "fst (isTrustedIdentity initiatedWorld (getName aliceAddress)
                   (pkwm_getIdentityKey (messageV2 keyA 11)))"
    by (simp add: isTrustedIdentity_def initiatedWorld_identities)
  have t2: "fst (isTrustedIdentity emptyWorld (getName aliceAddress)
                   (pkwm_getIdentityKey (messageV2 keyA 11)))"
    by (simp add: isTrustedIdentity_def emptyWorld_def)
  have m1: "preKeys initiatedWorld (pkwm_getPreKeyId (messageV2 keyA 11)) = None"
    by (simp add: initiatedWorld_preKeys)
  have m2: "preKeys emptyWorld (pkwm_getPreKeyId (messageV2 keyA 11)) = None"
    by (simp add: emptyWorld_def)
  have s1: "sessions initiatedWorld aliceAddress \<noteq> None"
    by (simp add: initiatedWorld_sessions)
  have s2: "sessions emptyWorld aliceAddress = None"
    by (simp add: emptyWorld_def)
  have ik: "pkwm_getIdentityKey (messageV2 keyA 11) = keyA"
       "pkwm_getPreKeyId (messageV2 keyA 11) = 11"
    by (simp_all add: messageV2_def)
  show ?thesis
    using v2_missing_pre_key [OF v2 t1 m1, of toyPrimitives pendingRecord]
      v2_missing_pre_key [OF v2 t2 m2, of toyPrimitives newSessionRecord] s1 s2
    by (simp add: replayedV2_def aliceAddress_name ik)
qed

text \<open>
  Where the claim as stated fails. First, "no state change": a session for alice exists
  (with a pending key exchange), no identity is pinned for her, and the pre-key 11 is gone;
  the call returns the absent id, and the identity store now pins the key the message
  presented. Second, the failure without a session: \<open>keyA\<close> is pinned, there is no
  session and no pre-key 11, and a message presenting \<open>keyB\<close> fails with
  \<open>UntrustedIdentity\<close>, not with \<open>InvalidKeyId\<close>.
\<close>

theorem v2_missing_pre_key_pins_identity:
  "sessions initiatedWorld aliceAddress \<noteq> None \<and>
   preKeys initiatedWorld (pkwm_getPreKeyId (messageV2 keyA 11)) = None \<and>
   fst replayedV2 = Inr (- 1) \<and>
   identities initiatedWorld ''alice'' = None \<and>
   identities (fst (snd replayedV2)) ''alice'' = Some keyA \<and>
   last (calls (fst (snd replayedV2))) = SaveIdentity ''alice'' keyA \<and>
   sessions pinnedWorld aliceAddress = None \<and>
   preKeys pinnedWorld (pkwm_getPreKeyId (messageV2 keyB 11)) = None \<and>
   fst (process_PreKeyWhisperMessage toyPrimitives aliceAddress pinnedWorld newSessionRecord
          (messageV2 keyB 11)) =
     Inl (UntrustedIdentityException ''Untrusted identity: alice'')"
proof -
  have a: "sessions initiatedWorld aliceAddress \<noteq> None \<and>
      preKeys initiatedWorld (pkwm_getPreKeyId (messageV2 keyA 11)) = None \<and>
      fst replayedV2 = Inr (- 1) \<and>
      identities initiatedWorld ''alice'' = None \<and>
      identities (fst (snd replayedV2)) ''alice'' = Some keyA \<and>
      last (calls (fst (snd replayedV2))) = SaveIdentity ''alice'' keyA"
    by (simp add: replayedV2_def builder_defs Let_def store_defs initiatedWorld_sessions
          initiatedWorld_preKeys initiatedWorld_identities messageV2_def aliceAddress_name)
  have b: "sessions pinnedWorld aliceAddress = None \<and>
      preKeys pinnedWorld (pkwm_getPreKeyId (messageV2 keyB 11)) = None \<and>
      fst (process_PreKeyWhisperMessage toyPrimitives aliceAddress pinnedWorld newSessionRecord
             (messageV2 keyB 11)) =
        Inl (UntrustedIdentityException ''Untrusted identity: alice'')"
    by (simp add: process_PreKeyWhisperMessage_def Let_def isTrustedIdentity_def
          pinnedWorld_def emptyWorld_def messageV2_def aliceAddress_name keyA_def keyB_def)
  from a b show ?thesis by simp
qed

subsection \<open>Pre-key bundles\<close>

text \<open>
  What the bundle path does with its own check: behind the identity gate, a bundle with a
  signed pre-key is refused with \<open>InvalidKey\<close>, before any other store call, when
  \<open>verifySignature(signedPreKey, identityKey.serialize(), signature)\<close> is false. That is the
  call of lines 149 to 151: the signed pre-key is in the place of the signing key, the
  identity key in the place of the message.
\<close>

lemma bundle_refused_when_swapped_check_fails:
  assumes "fst (isTrustedIdentity w (getName a) (pkb_getIdentityKey b))"
    and "serialize (pkb_getSignedPreKey b) \<noteq> []"
    and "\<not> verifySignature P (pkb_getSignedPreKey b)
            (serialize (ik_getPublicKey (pkb_getIdentityKey b))) (pkb_getSignedPreKeySignature b)"
  shows "process_PreKeyBundle P a w b =
           (Inl (InvalidKeyException ''Invalid signature on device key!''),
            logged (IsTrustedIdentity (getName a) (pkb_getIdentityKey b)) w)"
  using assms by (simp add: process_PreKeyBundle_def isTrustedIdentity_def)

text \<open>
  And when that call answers true the bundle is accepted, whatever the verification of the
  signature under the identity key would say.
\<close>

lemma bundle_accepted_when_swapped_check_passes:
  assumes "fst (isTrustedIdentity w (getName a) (pkb_getIdentityKey b))"
    and "serialize (pkb_getSignedPreKey b) \<noteq> []"
    and "verifySignature P (pkb_getSignedPreKey b)
            (serialize (ik_getPublicKey (pkb_getIdentityKey b))) (pkb_getSignedPreKeySignature b)"
  shows "fst (process_PreKeyBundle P a w b) = Inr () \<and>
         sessions (snd (process_PreKeyBundle P a w b)) a \<noteq> None \<and>
         identities (snd (process_PreKeyBundle P a w b)) (getName a) = Some (pkb_getIdentityKey b)"
  using assms
  by (simp add: process_PreKeyBundle_def Let_def store_defs split_beta)

text \<open>
  C4. The claim is that a bundle whose signed-pre-key signature does not verify under the
  bundle's identity key is refused with \<open>InvalidKey\<close> and nothing is stored. The other
  two signature checks of the builder (lines 233 and 304) call
  \<open>verifySignature(identityKey.getPublicKey(), key.serialize(), signature)\<close>; the bundle path
  passes the signed pre-key and the identity key the other way round. So \<open>forgedBundle\<close>,
  whose signature does not verify under the identity key, is accepted: a session is stored
  and the identity key is pinned. And \<open>honestBundle\<close>, whose signature does verify under
  the identity key, is refused.
\<close>

theorem bundle_signature_checked_with_swapped_roles:
  "serialize (pkb_getSignedPreKey forgedBundle) \<noteq> [] \<and>
   \<not> verifySignature toyPrimitives (ik_getPublicKey (pkb_getIdentityKey forgedBundle))
       (serialize (pkb_getSignedPreKey forgedBundle)) (pkb_getSignedPreKeySignature forgedBundle) \<and>
   fst (process_PreKeyBundle toyPrimitives aliceAddress emptyWorld forgedBundle) = Inr () \<and>
   sessions (snd (process_PreKeyBundle toyPrimitives aliceAddress emptyWorld forgedBundle))
     aliceAddress \<noteq> None \<and>
   identities (snd (process_PreKeyBundle toyPrimitives aliceAddress emptyWorld forgedBundle))
     ''alice'' = Some keyA \<and>
   verifySignature toyPrimitives (ik_getPublicKey (pkb_getIdentityKey honestBundle))
       (serialize (pkb_getSignedPreKey honestBundle)) (pkb_getSignedPreKeySignature honestBundle) \<and>
   fst (process_PreKeyBundle toyPrimitives aliceAddress emptyWorld honestBundle) =
     Inl (InvalidKeyException ''Invalid signature on device key!'')"
  by (simp add: forgedBundle_def honestBundle_def builder_defs Let_def store_defs record_defs
        instance_defs)

subsection \<open>Key exchange responses\<close>

text \<open>
  C3. In \<open>processResponse\<close>, for a message that matches the pending exchange (there is one,
  and its sequence is the message's): if the session version after initialisation is at
  least 3 and the base-key signature of the message does not verify under the message's
  identity key, the call fails with \<open>InvalidKey\<close> (text "Base key signature doesn't
  match!"). The only store call it made is \<open>loadSession\<close>: neither \<open>storeSession\<close> nor
  \<open>saveIdentity\<close> runs, and the session and identity stores are as they were, so the
  session that failed the check is not persisted. The last conjunct is the same through the
  entry point \<open>process(keyExchangeMessage)\<close>, which reaches \<open>processResponse\<close> for a
  trusted message that is not an initiate.
\<close>

theorem response_bad_signature_not_persisted:
  assumes pending: "hasPendingKeyExchange (sessionState (fst (loadSession w a)))"
    and seq: "getPendingKeyExchangeSequence (sessionState (fst (loadSession w a))) =
                kem_getSequence m"
    and ver: "3 \<le> sessionVersion (sessionState (initializeResponse P (fst (loadSession w a)) m))"
    and bad: "\<not> verifySignature P (ik_getPublicKey (kem_getIdentityKey m))
                  (serialize (kem_getBaseKey m)) (kem_getBaseKeySignature m)"
  shows "processResponse P a w m =
           (Inl (InvalidKeyException ''Base key signature doesn't match!''),
            logged (LoadSession a) w) \<and>
         calls (snd (processResponse P a w m)) = calls w @ [LoadSession a] \<and>
         sessions (snd (processResponse P a w m)) = sessions w \<and>
         identities (snd (processResponse P a w m)) = identities w \<and>
         (fst (isTrustedIdentity w (getName a) (kem_getIdentityKey m)) \<and> \<not> isInitiate m \<longrightarrow>
            process_KeyExchangeMessage P a w m =
              (Inl (InvalidKeyException ''Base key signature doesn't match!''),
               logged (LoadSession a)
                 (logged (IsTrustedIdentity (getName a) (kem_getIdentityKey m)) w)))"
proof -
  have *: "\<And>w'. fst (loadSession w' a) = fst (loadSession w a) \<Longrightarrow>
      processResponse P a w' m =
           (Inl (InvalidKeyException ''Base key signature doesn't match!''),
            logged (LoadSession a) w')"
    using assms
    by (simp add: processResponse_def Let_def split_beta loadSession_snd)
  have r: "processResponse P a w m =
           (Inl (InvalidKeyException ''Base key signature doesn't match!''),
            logged (LoadSession a) w)"
    by (rule *) simp
  have k: "processResponse P a (logged (IsTrustedIdentity (getName a) (kem_getIdentityKey m)) w) m =
           (Inl (InvalidKeyException ''Base key signature doesn't match!''),
            logged (LoadSession a)
              (logged (IsTrustedIdentity (getName a) (kem_getIdentityKey m)) w))"
    by (rule *) simp
  show ?thesis
    using k by (simp add: r logged_def process_KeyExchangeMessage_def isTrustedIdentity_def)
qed

text \<open>
  After our own \<^verbatim>\<open>process()\<close> (sequence 4242), a response with that sequence, maximum
  version 3 and a signature that does not verify is refused and nothing is stored.
\<close>

theorem response_bad_signature_not_persisted_witness:
  "processResponse toyPrimitives aliceAddress initiatedWorld (keyExchange keyA 2 4242 [0]) =
     (Inl (InvalidKeyException ''Base key signature doesn't match!''),
      logged (LoadSession aliceAddress) initiatedWorld) \<and>
   process_KeyExchangeMessage toyPrimitives aliceAddress initiatedWorld
       (keyExchange keyA 2 4242 [0]) =
     (Inl (InvalidKeyException ''Base key signature doesn't match!''),
      logged (LoadSession aliceAddress)
        (logged (IsTrustedIdentity ''alice'' keyA) initiatedWorld))"
proof -
  have pending: "hasPendingKeyExchange (sessionState (fst (loadSession initiatedWorld aliceAddress)))"
    by (simp add: initiatedWorld_session pendingRecord_def hasPendingKeyExchange_def)
  have seq: "getPendingKeyExchangeSequence
               (sessionState (fst (loadSession initiatedWorld aliceAddress))) =
             kem_getSequence (keyExchange keyA 2 4242 [0])"
    by (simp add: initiatedWorld_session pendingRecord_def getPendingKeyExchangeSequence_def
          keyExchange_def)
  have ver: "3 \<le> sessionVersion (sessionState (initializeResponse toyPrimitives
               (fst (loadSession initiatedWorld aliceAddress)) (keyExchange keyA 2 4242 [0])))"
    by (simp add: initiatedWorld_session pendingRecord_def initializeResponse_def Let_def
          isFresh_def archiveCurrentState_def onSessionState_def toyPrimitives_def
          keyExchange_def CURRENT_VERSION_def)
  have bad: "\<not> verifySignature toyPrimitives
               (ik_getPublicKey (kem_getIdentityKey (keyExchange keyA 2 4242 [0])))
               (serialize (kem_getBaseKey (keyExchange keyA 2 4242 [0])))
               (kem_getBaseKeySignature (keyExchange keyA 2 4242 [0]))"
    by (simp add: toyPrimitives_def keyExchange_def keyA_def)
  have tr: "fst (isTrustedIdentity initiatedWorld (getName aliceAddress)
                   (kem_getIdentityKey (keyExchange keyA 2 4242 [0])))"
    by (simp add: isTrustedIdentity_def initiatedWorld_identities)
  have ni: "\<not> isInitiate (keyExchange keyA 2 4242 [0])"
    by (simp add: isInitiate_def keyExchange_def INITIATE_FLAG_def)
  have ik: "kem_getIdentityKey (keyExchange keyA 2 4242 [0]) = keyA"
    by (simp add: keyExchange_def)
  show ?thesis
    using response_bad_signature_not_persisted [OF pending seq ver bad] tr ni
    by (simp add: aliceAddress_name ik)
qed

text \<open>
  C8. When \<open>processResponse\<close> finds no pending key exchange, or one whose sequence is not
  the message's: a message that is not flagged as the response to a simultaneous initiate
  fails with \<open>StaleKeyExchange\<close>, and a message that is so flagged returns normally. In
  both cases the only store call is \<open>loadSession\<close>, and the four stores are unchanged.
\<close>

theorem stale_response:
  assumes "\<not> hasPendingKeyExchange (sessionState (fst (loadSession w a))) \<or>
           getPendingKeyExchangeSequence (sessionState (fst (loadSession w a))) \<noteq>
             kem_getSequence m"
  shows "processResponse P a w m =
           (if \<not> isResponseForSimultaneousInitiate m then Inl (StaleKeyExchangeException [])
            else Inr (),
            logged (LoadSession a) w) \<and>
         calls (snd (processResponse P a w m)) = calls w @ [LoadSession a] \<and>
         sessions (snd (processResponse P a w m)) = sessions w \<and>
         identities (snd (processResponse P a w m)) = identities w \<and>
         preKeys (snd (processResponse P a w m)) = preKeys w \<and>
         signedPreKeys (snd (processResponse P a w m)) = signedPreKeys w"
proof -
  have r: "processResponse P a w m =
           (if \<not> isResponseForSimultaneousInitiate m then Inl (StaleKeyExchangeException [])
            else Inr (),
            logged (LoadSession a) w)"
    using assms
    by (auto simp: processResponse_def Let_def split_beta loadSession_snd)
  show ?thesis
    by (simp add: r logged_def)
qed

text \<open>
  Without a pending exchange, flags 2 (response) give \<open>StaleKeyExchange\<close> and flags 6
  (response to a simultaneous initiate) return silently; with the pending sequence 4242, a
  response for the sequence 17 is stale as well.
\<close>

theorem stale_response_witness:
  "processResponse toyPrimitives aliceAddress emptyWorld (keyExchange keyA 2 17 [1, 44]) =
     (Inl (StaleKeyExchangeException []), logged (LoadSession aliceAddress) emptyWorld) \<and>
   processResponse toyPrimitives aliceAddress emptyWorld (keyExchange keyA 6 17 [1, 44]) =
     (Inr (), logged (LoadSession aliceAddress) emptyWorld) \<and>
   processResponse toyPrimitives aliceAddress initiatedWorld (keyExchange keyA 2 17 [1, 44]) =
     (Inl (StaleKeyExchangeException []), logged (LoadSession aliceAddress) initiatedWorld)"
proof -
  have none: "\<not> hasPendingKeyExchange (sessionState (fst (loadSession emptyWorld aliceAddress)))"
    by (simp add: loadSession_def emptyWorld_def newSessionRecord_def blankSessionState_def
          hasPendingKeyExchange_def)
  have other: "getPendingKeyExchangeSequence
                 (sessionState (fst (loadSession initiatedWorld aliceAddress))) \<noteq>
               kem_getSequence (keyExchange keyA 2 17 [1, 44])"
    by (simp add: initiatedWorld_session pendingRecord_def getPendingKeyExchangeSequence_def
          keyExchange_def)
  have f2: "\<not> isResponseForSimultaneousInitiate (keyExchange keyA 2 17 [1, 44])"
    by (simp add: isResponseForSimultaneousInitiate_def keyExchange_def
          SIMULTAENOUS_INITIATE_FLAG_def)
  have f6: "isResponseForSimultaneousInitiate (keyExchange keyA 6 17 [1, 44])"
    by (simp add: isResponseForSimultaneousInitiate_def keyExchange_def
          SIMULTAENOUS_INITIATE_FLAG_def)
  show ?thesis
    using stale_response [OF disjI1 [OF none], where m = "keyExchange keyA 2 17 [1, 44]"
          and P = toyPrimitives]
      stale_response [OF disjI1 [OF none], where m = "keyExchange keyA 6 17 [1, 44]"
          and P = toyPrimitives]
      stale_response [OF disjI2 [OF other], where P = toyPrimitives]
    by (simp add: f2 f6)
qed

subsection \<open>The outbound initiate\<close>

text \<open>
  C9. The message returned by \<^verbatim>\<open>process()\<close> has version 2, the initiate flag and no
  other, the public halves of the two key pairs drawn in this call (the base key first, the
  ratchet key second), the signature of the serialised base public key under the local
  identity private key, the local identity public key, and the sequence drawn. The last
  store call is \<open>storeSession\<close>, and the record it commits for the address has a pending
  key exchange with the sequence of the returned message.
\<close>

theorem outbound_initiate_message:
  "kem_getVersion (fst (process_noargs P a w)) = 2 \<and>
   kem_getFlags (fst (process_noargs P a w)) = INITIATE_FLAG \<and>
   isInitiate (fst (process_noargs P a w)) \<and>
   kem_getBaseKey (fst (process_noargs P a w)) =
     kp_getPublicKey (fst (generateKeyPair (snd (getRandomFFFF w)))) \<and>
   kem_getRatchetKey (fst (process_noargs P a w)) =
     kp_getPublicKey (fst (generateKeyPair (snd (generateKeyPair (snd (getRandomFFFF w)))))) \<and>
   kem_getBaseKeySignature (fst (process_noargs P a w)) =
     calculateSignature P (ikp_getPrivateKey (ourIdentityKeyPair w))
       (serialize (kem_getBaseKey (fst (process_noargs P a w)))) \<and>
   kem_getIdentityKey (fst (process_noargs P a w)) = ikp_getPublicKey (ourIdentityKeyPair w) \<and>
   kem_getSequence (fst (process_noargs P a w)) = fst (getRandomFFFF w) \<and>
   last (calls (snd (process_noargs P a w))) = StoreSession a (initiateRecord w a) \<and>
   sessions (snd (process_noargs P a w)) a = Some (initiateRecord w a) \<and>
   hasPendingKeyExchange (sessionState (initiateRecord w a)) \<and>
   getPendingKeyExchangeSequence (sessionState (initiateRecord w a)) =
     kem_getSequence (fst (process_noargs P a w))"
  by (simp add: process_noargs_eval KeyExchangeMessage_def isInitiate_def INITIATE_FLAG_def
        getRandomFFFF_def generateKeyPair_def initiateRecord_def onSessionState_def
        setPendingKeyExchange_def hasPendingKeyExchange_def getPendingKeyExchangeSequence_def)

lemma processInitiate_pins:
  assumes "processInitiate P a w m = (Inr resp, w')"
  shows "identities w' = (identities w)(getName a \<mapsto> kem_getIdentityKey m) \<and>
         last (calls w') = SaveIdentity (getName a) (kem_getIdentityKey m)"
  using assms
  by (auto simp: processInitiate_def Let_def store_defs split: if_splits prod.splits)

text \<open>
  C10. \<^verbatim>\<open>process()\<close> makes three store calls: \<open>getIdentityKeyPair\<close>, \<open>loadSession\<close> and
  \<open>storeSession\<close>. There is no trust question and no \<open>saveIdentity\<close> among them; the
  session store gains the one record, and the identity, pre-key and signed-pre-key stores
  are unchanged. The identity of the peer is pinned when the peer's key exchange message
  is processed: every normal return of \<open>processInitiate\<close> ends with \<open>saveIdentity\<close> of the
  message's identity key.
\<close>

theorem outbound_initiate_only_stores_session:
  "calls (snd (process_noargs P a w)) =
     calls w @ [GetIdentityKeyPair, LoadSession a, StoreSession a (initiateRecord w a)] \<and>
   sessions (snd (process_noargs P a w)) = (sessions w)(a \<mapsto> initiateRecord w a) \<and>
   identities (snd (process_noargs P a w)) = identities w \<and>
   preKeys (snd (process_noargs P a w)) = preKeys w \<and>
   signedPreKeys (snd (process_noargs P a w)) = signedPreKeys w \<and>
   (processInitiate P a w2 m = (Inr response, w3) \<longrightarrow>
      identities w3 = (identities w2)(getName a \<mapsto> kem_getIdentityKey m) \<and>
      last (calls w3) = SaveIdentity (getName a) (kem_getIdentityKey m))"
  using processInitiate_pins [of P a w2 m response w3]
  by (simp add: process_noargs_eval)

lemma peerInitiate_fst:
  "fst peerInitiate =
     Inr (KeyExchangeMessage 3 17 6 (DjbECPublicKey [101]) [9, 101] (DjbECPublicKey [102])
            (IdentityKey (DjbECPublicKey [9])))"
  by (simp add: peerInitiate_def processInitiate_def Let_def initiatedWorld_sessions
        pendingRecord_def store_defs record_defs toyPrimitives_def keyExchange_def keyA_def
        CURRENT_VERSION_def RESPONSE_FLAG_def SIMULTAENOUS_INITIATE_FLAG_def split_beta)

text \<open>
  On empty stores \<^verbatim>\<open>process()\<close> makes its three calls and pins nothing; the peer's
  initiate, processed afterwards, pins the peer's key.
\<close>

theorem outbound_initiate_only_stores_session_witness:
  "calls (snd (process_noargs toyPrimitives aliceAddress emptyWorld)) =
     [GetIdentityKeyPair, LoadSession aliceAddress,
      StoreSession aliceAddress (initiateRecord emptyWorld aliceAddress)] \<and>
   identities initiatedWorld ''alice'' = None \<and>
   identities (snd peerInitiate) ''alice'' = Some keyA \<and>
   last (calls (snd peerInitiate)) = SaveIdentity ''alice'' keyA"
proof -
  have run: "processInitiate toyPrimitives aliceAddress initiatedWorld
               (keyExchange keyA 1 17 [1, 44]) =
             (Inr (KeyExchangeMessage 3 17 6 (DjbECPublicKey [101]) [9, 101]
                     (DjbECPublicKey [102]) (IdentityKey (DjbECPublicKey [9]))),
              snd peerInitiate)"
    using peerInitiate_fst by (simp add: peerInitiate_def prod_eq_iff)
  have ik: "kem_getIdentityKey (keyExchange keyA 1 17 [1, 44]) = keyA"
    by (simp add: keyExchange_def)
  have c0: "calls emptyWorld = []"
    by (simp add: emptyWorld_def)
  show ?thesis
    using run outbound_initiate_only_stores_session
      [of toyPrimitives aliceAddress emptyWorld initiatedWorld "keyExchange keyA 1 17 [1, 44]"
          "KeyExchangeMessage 3 17 6 (DjbECPublicKey [101]) [9, 101] (DjbECPublicKey [102])
             (IdentityKey (DjbECPublicKey [9]))" "snd peerInitiate"]
    by (simp add: ik c0 aliceAddress_name initiatedWorld_identities)
qed

end
